theory Spec2Isabelle
  imports Complex_Main
begin

section \<open>Query history of the query processor\<close>

text \<open>
  \<^verbatim>\<open>GraphRAGQueryProcessor.__init__\<close> sets \<^verbatim>\<open>self.query_history = []\<close> and
  \<^verbatim>\<open>self.max_history_length = 10\<close>. The entries of the history are dictionaries that
  \<^verbatim>\<open>update_query_history\<close> never inspects, so their type is a parameter.
\<close>

record 'q processor_state =
  query_history :: "'q list"
  max_history_length :: nat

definition init_processor :: "'q processor_state" where
  "init_processor = \<lparr>query_history = [], max_history_length = 10\<rparr>"

text \<open>
  Python's \<^verbatim>\<open>xs[-n:]\<close>: for \<open>n > 0\<close> the last \<open>n\<close> elements (all of them when the list
  is shorter); \<^verbatim>\<open>xs[-0:]\<close> is \<^verbatim>\<open>xs[0:]\<close>, the whole list.
\<close>

definition py_last_slice :: "nat \<Rightarrow> 'a list \<Rightarrow> 'a list" where
  "py_last_slice n xs = (if n = 0 then xs else drop (length xs - n) xs)"

definition update_query_history :: "'q processor_state \<Rightarrow> 'q \<Rightarrow> 'q processor_state" where
  "update_query_history s query_info =
     (let h = query_history s @ [query_info]
      in if length h > max_history_length s
         then s\<lparr>query_history := py_last_slice (max_history_length s) h\<rparr>
         else s\<lparr>query_history := h\<rparr>)"

section \<open>Python dictionaries, strings and exceptions\<close>

text \<open>
  A Python \<^verbatim>\<open>dict\<close> keeps its keys in insertion order; it is modelled as an association
  list without repeated keys: \<open>map_of\<close> reads a key, \<open>dict_set\<close> overwrites the value of a
  key in place or appends a new key at the end, as \<^verbatim>\<open>d[k] = v\<close> does.
\<close>

fun dict_set :: "('k \<times> 'v) list \<Rightarrow> 'k \<Rightarrow> 'v \<Rightarrow> ('k \<times> 'v) list" where
  "dict_set [] k v = [(k, v)]"
| "dict_set ((k', v') # kvs) k v =
     (if k' = k then (k, v) # kvs else (k', v') # dict_set kvs k v)"

text \<open>The exceptions that the modelled code can raise.\<close>

datatype py_error = TypeError | KeyError | ValueError

text \<open>
  \<^verbatim>\<open>str.lower()\<close> on the ASCII letters; a \<open>char\<close> is a byte, and bytes outside
  \<^verbatim>\<open>A-Z\<close> are left as they are.
\<close>

definition lower_char :: "char \<Rightarrow> char" where
  "lower_char c =
     (let n = (of_char c :: nat) in if 65 \<le> n \<and> n \<le> 90 then char_of (n + 32) else c)"

definition py_lower :: "string \<Rightarrow> string" where
  "py_lower s = map lower_char s"

text \<open>\<^verbatim>\<open>sub in s\<close> for two strings.\<close>

fun starts_with :: "string \<Rightarrow> string \<Rightarrow> bool" where
  "starts_with s [] = True"
| "starts_with [] (c # cs) = False"
| "starts_with (d # ds) (c # cs) = (d = c \<and> starts_with ds cs)"

fun str_contains :: "string \<Rightarrow> string \<Rightarrow> bool" where
  "str_contains [] sub = (sub = [])"
| "str_contains (d # ds) sub = (starts_with (d # ds) sub \<or> str_contains ds sub)"

text \<open>\<^verbatim>\<open>s.split(sep)\<close> for a one-character separator: always at least one part.\<close>

fun py_split :: "char \<Rightarrow> string \<Rightarrow> string list" where
  "py_split sep [] = [[]]"
| "py_split sep (c # cs) =
     (if c = sep then [] # py_split sep cs
      else (case py_split sep cs of
              [] \<Rightarrow> [[c]]
            | p # ps \<Rightarrow> (c # p) # ps))"

text \<open>\<^verbatim>\<open>sep.join(parts)\<close>.\<close>

fun py_join :: "string \<Rightarrow> string list \<Rightarrow> string" where
  "py_join sep [] = []"
| "py_join sep [p] = p"
| "py_join sep (p # q # ps) = p @ sep @ py_join sep (q # ps)"

text \<open>\<^verbatim>\<open>str(n)\<close> for an integer: its decimal digits, with a minus sign when negative.\<close>

definition digit_char :: "nat \<Rightarrow> char" where
  "digit_char d = char_of (48 + d)"

function str_of_nat :: "nat \<Rightarrow> string" where
  "str_of_nat n = (if n < 10 then [digit_char n] else str_of_nat (n div 10) @ [digit_char (n mod 10)])"
  by pat_completeness auto
termination
  by (relation "measure id") auto

declare str_of_nat.simps [simp del]

definition str_of_int :: "int \<Rightarrow> string" where
  "str_of_int i = (if i < 0 then CHR ''-'' # str_of_nat (nat (- i)) else str_of_nat (nat i))"

definition is_digit :: "char \<Rightarrow> bool" where
  "is_digit c = (let n = (of_char c :: nat) in 48 \<le> n \<and> n \<le> 57)"

section \<open>The schema graph (\<^verbatim>\<open>SelfEvolvingGraphSchema\<close>)\<close>

text \<open>
  A property definition is a dictionary with the keys \<^verbatim>\<open>type\<close>, \<^verbatim>\<open>required\<close> and
  \<^verbatim>\<open>enum\<close>; the last two may be absent, and the code reads \<^verbatim>\<open>required\<close> only through
  \<^verbatim>\<open>p.get('required', False)\<close>.
\<close>

record prop_def =
  pd_type :: string
  pd_required :: "bool option"
  pd_enum :: "string list option"

type_synonym prop_defs = "(string \<times> prop_def) list"
type_synonym constraints = "(string \<times> string) list"

record node_attrs =
  n_type :: string
  n_properties :: prop_defs
  n_constraints :: constraints

record edge_attrs =
  e_name :: string
  e_type :: string
  e_properties :: prop_defs
  e_constraints :: constraints

text \<open>
  \<^verbatim>\<open>self.schema_graph = nx.DiGraph()\<close>: a directed graph that holds at most one edge for
  each ordered pair of nodes. \<open>g_nodes\<close> is its node dictionary, \<open>g_adj\<close> its successor
  dictionary: for each source node the dictionary from target node to the one attribute
  dictionary of that edge.
\<close>

record digraph =
  g_nodes :: "(string \<times> node_attrs) list"
  g_adj :: "(string \<times> (string \<times> edge_attrs) list) list"

definition empty_digraph :: digraph where
  "empty_digraph = \<lparr>g_nodes = [], g_adj = []\<rparr>"

text \<open>\<^verbatim>\<open>G.add_node(n, **attr)\<close>: a new node gets an empty adjacency, an old one new attributes.\<close>

definition add_node :: "digraph \<Rightarrow> string \<Rightarrow> node_attrs \<Rightarrow> digraph" where
  "add_node g n attrs =
     (case map_of (g_nodes g) n of
        None \<Rightarrow> \<lparr>g_nodes = g_nodes g @ [(n, attrs)], g_adj = dict_set (g_adj g) n []\<rparr>
      | Some _ \<Rightarrow> g\<lparr>g_nodes := dict_set (g_nodes g) n attrs\<rparr>)"

text \<open>
  \<^verbatim>\<open>G.add_edge(u, v, **attr)\<close> of a \<^verbatim>\<open>DiGraph\<close>, for end points that are nodes already
  (\<^verbatim>\<open>add_relationship_type\<close> has checked both):
  \<^verbatim>\<open>datadict = self._adj[u].get(v, {}); datadict.update(attr); self._succ[u][v] = datadict\<close>.
  The call passes all four attributes, so an edge that is there already has every attribute
  overwritten.
\<close>

definition add_edge :: "digraph \<Rightarrow> string \<Rightarrow> string \<Rightarrow> edge_attrs \<Rightarrow> digraph" where
  "add_edge g u v attrs =
     g\<lparr>g_adj := dict_set (g_adj g) u
            (dict_set (case map_of (g_adj g) u of None \<Rightarrow> [] | Some nbrs \<Rightarrow> nbrs) v attrs)\<rparr>"

text \<open>\<^verbatim>\<open>G.edges(data=True)\<close>: for each node in node order, its out-edges in adjacency order.\<close>

definition edges :: "digraph \<Rightarrow> (string \<times> string \<times> edge_attrs) list" where
  "edges g = concat (map (\<lambda>(u, _).
       map (\<lambda>(v, d). (u, v, d)) (case map_of (g_adj g) u of None \<Rightarrow> [] | Some nbrs \<Rightarrow> nbrs))
     (g_nodes g))"

text \<open>
  \<^verbatim>\<open>nx.density(G)\<close> of a directed graph (networkx, not part of the repository):
  \<open>0\<close> when there is no edge or at most one node, else \<open>m / (n * (n - 1))\<close>.
  Python floats are modelled as exact rationals throughout.
\<close>

definition density :: "digraph \<Rightarrow> rat" where
  "density g =
     (let n = length (g_nodes g); m = length (edges g)
      in if m = 0 \<or> n \<le> 1 then 0 else of_nat m / (of_nat n * (of_nat n - 1)))"

record schema_version =
  version :: nat
  timestamp :: string
  description :: string
  entity_count :: nat
  relationship_count :: nat

record schema_metrics =
  entity_counts_total :: nat
  entity_counts_by_type :: "(string \<times> nat) list"
  relationship_counts_total :: nat
  relationship_counts_by_type :: "(string \<times> nat) list"
  schema_changes :: "schema_version list"

text \<open>
  \<^verbatim>\<open>quality_scores\<close>: the constructor stores the three scores without \<^verbatim>\<open>overall\<close>;
  \<^verbatim>\<open>_calculate_quality_scores\<close> stores all four.
\<close>

record quality_scores =
  coverage :: rat
  consistency :: rat
  connectivity :: rat
  overall :: "rat option"

record schema_state =
  schema_graph :: digraph
  schema_versions :: "schema_version list"
  schema_metrics :: schema_metrics
  quality_scores :: quality_scores

record relationship_type =
  rt_name :: string
  rt_source :: string
  rt_target :: string
  rt_properties :: prop_defs
  rt_constraints :: constraints

definition get_entity_types :: "schema_state \<Rightarrow> string list" where
  "get_entity_types s =
     map fst (filter (\<lambda>(node, data). n_type data = ''entity_type'') (g_nodes (schema_graph s)))"

definition get_relationship_types :: "schema_state \<Rightarrow> relationship_type list" where
  "get_relationship_types s =
     map (\<lambda>(source, target, data).
            \<lparr>rt_name = e_name data, rt_source = source, rt_target = target,
             rt_properties = e_properties data, rt_constraints = e_constraints data\<rparr>)
         (filter (\<lambda>(source, target, data). e_type data = ''relationship_type'')
                 (edges (schema_graph s)))"

text \<open>The consistency score: for each entity type the share of its properties that are required.\<close>

definition property_completeness :: "schema_state \<Rightarrow> rat list" where
  "property_completeness s =
     map (\<lambda>(_, data).
            let props = n_properties data;
                required_props = length (filter (\<lambda>(_, p). pd_required p = Some True) props)
            in if length props > 0 then of_nat required_props / of_nat (length props) else 0)
         (filter (\<lambda>(_, data). n_type data = ''entity_type'') (g_nodes (schema_graph s)))"

definition calculate_quality_scores :: "schema_state \<Rightarrow> schema_state" where
  "calculate_quality_scores s =
     (let entity_count = length (get_entity_types s);
          relationship_count = length (get_relationship_types s);
          expected_entities = 15;
          expected_relationships = 25;
          coverage = min 1 ((of_nat entity_count / expected_entities
                             + of_nat relationship_count / expected_relationships) / 2);
          connectivity = (if entity_count > 0 then density (schema_graph s) else 0);
          pc = property_completeness s;
          consistency = sum_list pc / of_nat (max 1 (length pc))
      in s\<lparr>quality_scores :=
             \<lparr>coverage = coverage, consistency = consistency, connectivity = connectivity,
              overall = Some ((coverage + consistency + connectivity) / 3)\<rparr>\<rparr>)"

text \<open>\<^verbatim>\<open>rel_counts\<close> of \<^verbatim>\<open>_update_schema_metrics\<close>: how often each relationship name occurs.\<close>

fun count_names :: "(string \<times> nat) list \<Rightarrow> string list \<Rightarrow> (string \<times> nat) list" where
  "count_names rel_counts [] = rel_counts"
| "count_names rel_counts (rel_name # rels) =
     count_names (case map_of rel_counts rel_name of
                    Some c \<Rightarrow> dict_set rel_counts rel_name (c + 1)
                  | None \<Rightarrow> dict_set rel_counts rel_name 1) rels"

definition update_schema_metrics :: "schema_state \<Rightarrow> schema_state" where
  "update_schema_metrics s =
     (let entity_types = get_entity_types s;
          relationships = get_relationship_types s;
          m = (schema_metrics s)
                \<lparr>entity_counts_total := length entity_types,
                 entity_counts_by_type := foldl (\<lambda>d entity. dict_set d entity 1) [] entity_types,
                 relationship_counts_total := length relationships,
                 relationship_counts_by_type := count_names [] (map rt_name relationships)\<rparr>
      in calculate_quality_scores (s\<lparr>schema_metrics := m\<rparr>))"

text \<open>
  \<^verbatim>\<open>_record_schema_version\<close>; the time stamp \<^verbatim>\<open>datetime.now().isoformat()\<close> is an input
  of the model.
\<close>

definition record_schema_version :: "string \<Rightarrow> schema_state \<Rightarrow> string \<Rightarrow> schema_state" where
  "record_schema_version now s change_description =
     (let v = \<lparr>version = length (schema_versions s) + 1, timestamp = now,
               description = change_description,
               entity_count = length (get_entity_types s),
               relationship_count = length (get_relationship_types s)\<rparr>
      in s\<lparr>schema_versions := schema_versions s @ [v],
            schema_metrics := (schema_metrics s)
               \<lparr>schema_changes := schema_changes (schema_metrics s) @ [v]\<rparr>\<rparr>)"

text \<open>The two mutators return their Boolean result together with the new state.\<close>

definition add_entity_type ::
  "string \<Rightarrow> schema_state \<Rightarrow> string \<Rightarrow> prop_defs \<Rightarrow> constraints \<Rightarrow> bool \<times> schema_state" where
  "add_entity_type now s name properties constraints =
     (if name \<in> set (get_entity_types s) then (False, s)
      else
        let s1 = s\<lparr>schema_graph := add_node (schema_graph s) name
                      \<lparr>n_type = ''entity_type'', n_properties = properties,
                       n_constraints = constraints\<rparr>\<rparr>;
            s2 = update_schema_metrics s1;
            s3 = record_schema_version now s2 (''Added entity type: '' @ name)
        in (True, s3))"

definition add_relationship_type ::
  "string \<Rightarrow> schema_state \<Rightarrow> string \<Rightarrow> string \<Rightarrow> string \<Rightarrow> prop_defs \<Rightarrow> constraints
   \<Rightarrow> bool \<times> schema_state" where
  "add_relationship_type now s name source_type target_type properties constraints =
     (let entity_types = get_entity_types s
      in if source_type \<notin> set entity_types then (False, s)
         else if target_type \<notin> set entity_types then (False, s)
         else if list_ex (\<lambda>(u, v, d). u = source_type \<and> v = target_type \<and> e_name d = name)
                   (edges (schema_graph s))
         then (False, s)
         else
           let s1 = s\<lparr>schema_graph := add_edge (schema_graph s) source_type target_type
                         \<lparr>e_name = name, e_type = ''relationship_type'',
                          e_properties = properties, e_constraints = constraints\<rparr>\<rparr>;
               s2 = update_schema_metrics s1;
               s3 = record_schema_version now s2
                      (''Added relationship type: '' @ name @ '' ('' @ source_type @ '' -> ''
                       @ target_type @ '')'')
           in (True, s3))"

text \<open>
  The state that the constructor has built before it loads a schema: an empty graph, no
  versions, and the three scores at \<open>0.0\<close>.
\<close>

definition empty_schema :: schema_state where
  "empty_schema =
     \<lparr>schema_graph = empty_digraph, schema_versions = [],
      schema_metrics = \<lparr>entity_counts_total = 0, entity_counts_by_type = [],
                        relationship_counts_total = 0, relationship_counts_by_type = [],
                        schema_changes = []\<rparr>,
      quality_scores = \<lparr>coverage = 0, consistency = 0, connectivity = 0, overall = None\<rparr>\<rparr>"

text \<open>The triples \<open>(name, source, target)\<close> of the relationship types of a state.\<close>

definition relationship_triples :: "schema_state \<Rightarrow> (string \<times> string \<times> string) list" where
  "relationship_triples s =
     map (\<lambda>r. (rt_name r, rt_source r, rt_target r)) (get_relationship_types s)"

section \<open>Analysis of instance data (\<^verbatim>\<open>analyze_instance_data\<close>)\<close>

text \<open>
  A property value of the instance data. The analysis reads two things of a value: its
  class (\<^verbatim>\<open>_infer_property_type\<close>) and its text \<^verbatim>\<open>str(value)\<close>. A float, a dictionary
  and a list are therefore represented by that text.
\<close>

datatype inst_value =
  VNone | VBool bool | VInt int | VFloat string | VDict string | VList string | VStr string

fun py_str :: "inst_value \<Rightarrow> string" where
  "py_str VNone = ''None''"
| "py_str (VBool b) = (if b then ''True'' else ''False'')"
| "py_str (VInt i) = str_of_int i"
| "py_str (VFloat s) = s"
| "py_str (VDict s) = s"
| "py_str (VList s) = s"
| "py_str (VStr s) = s"

record inst_node =
  in_id :: string
  in_labels :: "string list"
  in_properties :: "(string \<times> inst_value) list"

record inst_edge =
  ie_source :: string
  ie_target :: string
  ie_type :: string
  ie_properties :: "(string \<times> inst_value) list"

record instance_data =
  nodes :: "inst_node list"
  edges_of :: "inst_edge list"

text \<open>
  The three date patterns of \<^verbatim>\<open>_infer_property_type\<close>, tried with \<^verbatim>\<open>re.fullmatch\<close>:
  \<^verbatim>\<open>\d{4}-\d{2}-\d{2}\<close>, \<^verbatim>\<open>\d{2}/\d{2}/\d{4}\<close> and \<^verbatim>\<open>\d{2}-\d{2}-\d{4}\<close>.
  A pattern is a list of positions: \<open>None\<close> for a digit, \<open>Some c\<close> for the character \<open>c\<close>.
\<close>

fun fullmatch :: "char option list \<Rightarrow> string \<Rightarrow> bool" where
  "fullmatch [] s = (s = [])"
| "fullmatch (p # ps) [] = False"
| "fullmatch (None # ps) (c # cs) = (is_digit c \<and> fullmatch ps cs)"
| "fullmatch (Some d # ps) (c # cs) = (c = d \<and> fullmatch ps cs)"

definition date_patterns :: "char option list list" where
  "date_patterns =
     [[None, None, None, None, Some CHR ''-'', None, None, Some CHR ''-'', None, None],
      [None, None, Some CHR ''/'', None, None, Some CHR ''/'', None, None, None, None],
      [None, None, Some CHR ''-'', None, None, Some CHR ''-'', None, None, None, None]]"

fun infer_property_type :: "inst_value \<Rightarrow> string" where
  "infer_property_type VNone = ''null''"
| "infer_property_type (VBool b) = ''boolean''"
| "infer_property_type (VInt i) = ''integer''"
| "infer_property_type (VFloat s) = ''number''"
| "infer_property_type (VDict s) = ''object''"
| "infer_property_type (VList s) = ''array''"
| "infer_property_type (VStr s) =
     (if list_ex (\<lambda>pattern. fullmatch pattern s) date_patterns then ''date'' else ''string'')"

text \<open>
  What the scan records for one property name. The two Python sets are lists without
  repetition, in the order of first insertion (Python leaves the iteration order of a set
  open; no property below depends on it).
\<close>

record prop_obs =
  obs_count :: nat
  obs_types :: "string list"
  obs_values :: "string list"

definition set_add :: "'a list \<Rightarrow> 'a \<Rightarrow> 'a list" where
  "set_add xs x = (if x \<in> set xs then xs else xs @ [x])"

text \<open>
  The body of the loop over \<^verbatim>\<open>properties.items()\<close>, the same for nodes (at most 10 sample
  values) and for edges (at most 5).
\<close>

definition observe_property ::
  "nat \<Rightarrow> (string \<times> prop_obs) list \<Rightarrow> string \<times> inst_value \<Rightarrow> (string \<times> prop_obs) list" where
  "observe_property limit props pv =
     (let prop_name = fst pv; prop_value = snd pv;
          prop_data = (case map_of props prop_name of
                         None \<Rightarrow> \<lparr>obs_count = 0, obs_types = [], obs_values = []\<rparr>
                       | Some d \<Rightarrow> d);
          prop_type = infer_property_type prop_value
      in dict_set props prop_name
           \<lparr>obs_count = obs_count prop_data + 1,
            obs_types = set_add (obs_types prop_data) prop_type,
            obs_values = (if length (obs_values prop_data) < limit
                          then set_add (obs_values prop_data) (py_str prop_value)
                          else obs_values prop_data)\<rparr>)"

record analyzed_prop =
  ap_type :: string
  ap_required :: bool
  ap_sample_values :: "string list"
  ap_enum :: "string list option"

text \<open>
  \<^verbatim>\<open>_analyze_property\<close>. Every record that reaches it has been counted at least once, so
  its set of types is not empty and \<^verbatim>\<open>next(iter(types))\<close> has an element to return.
\<close>

definition analyze_property :: "string \<Rightarrow> prop_obs \<Rightarrow> analyzed_prop" where
  "analyze_property name data =
     (let types = obs_types data;
          first_type = (case types of [] \<Rightarrow> [] | t # _ \<Rightarrow> t);
          ty = (if length types = 1 then first_type
                else if ''string'' \<in> set types \<and> length types > 1 then ''string''
                else if ''number'' \<in> set types \<and> ''integer'' \<in> set types then ''number''
                else first_type);
          lower_name = py_lower name;
          ty' = (if str_contains lower_name ''date'' \<and> ty = ''string'' then ''date'' else ty);
          required = (if str_contains lower_name ''id'' \<or> str_contains lower_name ''number''
                      then True else obs_count data > 5)
      in \<lparr>ap_type = ty', ap_required = required, ap_sample_values = obs_values data,
          ap_enum = (if length (obs_values data) \<le> 5 \<and> obs_count data \<ge> 5
                     then Some (obs_values data) else None)\<rparr>)"

record scan =
  all_labels :: "string list"
  label_counts :: "(string \<times> nat) list"
  property_sets :: "(string \<times> (string \<times> prop_obs) list) list"

definition scan_label :: "inst_node \<Rightarrow> scan \<Rightarrow> string \<Rightarrow> scan" where
  "scan_label node sc label =
     (let ps = (case map_of (property_sets sc) label of None \<Rightarrow> [] | Some ps \<Rightarrow> ps)
      in \<lparr>all_labels = set_add (all_labels sc) label,
          label_counts = dict_set (label_counts sc) label
             ((case map_of (label_counts sc) label of None \<Rightarrow> 0 | Some c \<Rightarrow> c) + 1),
          property_sets = dict_set (property_sets sc) label
             (foldl (observe_property 10) ps (in_properties node))\<rparr>)"

definition scan_nodes :: "inst_node list \<Rightarrow> scan" where
  "scan_nodes ns =
     foldl (\<lambda>sc node. foldl (scan_label node) sc (in_labels node))
       \<lparr>all_labels = [], label_counts = [], property_sets = []\<rparr> ns"

record entity_rec =
  er_name :: string
  er_frequency :: nat
  er_proposed_properties :: "(string \<times> analyzed_prop) list"

record rel_rec =
  rr_name :: string
  rr_source :: string
  rr_target :: string
  rr_frequency :: nat
  rr_proposed_properties :: "(string \<times> analyzed_prop) list"

record recommendations =
  new_entity_types :: "entity_rec list"
  new_property_types :: "(string \<times> (string \<times> analyzed_prop) list) list"
  new_relationship_types :: "rel_rec list"
  confidence_scores :: "(string \<times> rat) list"

text \<open>The dictionary comprehension \<^verbatim>\<open>{name: _analyze_property(name, d) ... if d['count'] >= k}\<close>.\<close>

definition common_props :: "nat \<Rightarrow> (string \<times> prop_obs) list \<Rightarrow> (string \<times> analyzed_prop) list" where
  "common_props k props =
     map (\<lambda>(name, data). (name, analyze_property name data))
         (filter (\<lambda>(name, data). obs_count data \<ge> k) props)"

text \<open>The loop \<^verbatim>\<open>for label in all_labels\<close> that proposes new entity types.\<close>

definition propose_entity :: "string list \<Rightarrow> scan \<Rightarrow> recommendations \<Rightarrow> string \<Rightarrow> recommendations" where
  "propose_entity existing_entity_types sc recs label =
     (if label \<in> set existing_entity_types then recs
      else
        let cnt = (case map_of (label_counts sc) label of None \<Rightarrow> 0 | Some c \<Rightarrow> c);
            confidence = min 1 (of_nat cnt / 10);
            props = (case map_of (property_sets sc) label of None \<Rightarrow> [] | Some ps \<Rightarrow> ps)
        in recs\<lparr>new_entity_types := new_entity_types recs @
                   [\<lparr>er_name = label, er_frequency = cnt,
                     er_proposed_properties = common_props 3 props\<rparr>],
                 confidence_scores := dict_set (confidence_scores recs)
                   (''entity_type:'' @ label) confidence\<rparr>)"

text \<open>\<^verbatim>\<open>_get_node_label\<close>: the first label of the first node with that id, if there is one.\<close>

fun get_node_label :: "string \<Rightarrow> inst_node list \<Rightarrow> string option" where
  "get_node_label node_id [] = None"
| "get_node_label node_id (node # ns) =
     (if in_id node = node_id
      then (case in_labels node of [] \<Rightarrow> None | l # _ \<Rightarrow> Some l)
      else get_node_label node_id ns)"

record rel_pattern =
  rp_count :: nat
  rp_properties :: "(string \<times> prop_obs) list"

text \<open>
  The loop over the edges. An edge is skipped when one of the two labels is missing or
  empty or the type is empty; the key of a pattern is the text
  \<^verbatim>\<open>f"{rel_type}:{source_label}:{target_label}"\<close>.
\<close>

definition scan_edge ::
  "inst_node list \<Rightarrow> (string \<times> rel_pattern) list \<Rightarrow> inst_edge \<Rightarrow> (string \<times> rel_pattern) list" where
  "scan_edge ns rel_patterns edge =
     (case (get_node_label (ie_source edge) ns, get_node_label (ie_target edge) ns) of
        (Some source_label, Some target_label) \<Rightarrow>
          if source_label = [] \<or> target_label = [] \<or> ie_type edge = [] then rel_patterns
          else
            let rel_key = ie_type edge @ '':'' @ source_label @ '':'' @ target_label;
                pat = (case map_of rel_patterns rel_key of
                         None \<Rightarrow> \<lparr>rp_count = 0, rp_properties = []\<rparr>
                       | Some p \<Rightarrow> p)
            in dict_set rel_patterns rel_key
                 \<lparr>rp_count = rp_count pat + 1,
                  rp_properties = foldl (observe_property 5) (rp_properties pat)
                                    (ie_properties edge)\<rparr>
      | _ \<Rightarrow> rel_patterns)"

text \<open>
  The loop \<^verbatim>\<open>for rel_key, data in rel_patterns.items()\<close>. Its first statement is
  \<^verbatim>\<open>rel_type, source_label, target_label = rel_key.split(':')\<close>, which raises
  \<^verbatim>\<open>ValueError\<close> unless the key splits into exactly three parts.
\<close>

definition propose_relationship ::
  "(string \<times> string \<times> string) list \<Rightarrow> recommendations \<Rightarrow> string \<times> rel_pattern
   \<Rightarrow> py_error + recommendations" where
  "propose_relationship existing_rel_types recs kd =
     (let rel_key = fst kd; data = snd kd
      in case py_split CHR '':'' rel_key of
           [rel_type, source_label, target_label] \<Rightarrow>
             if map_of existing_rel_types rel_type = Some (source_label, target_label)
             then Inr recs
             else
               let confidence = min 1 (of_nat (rp_count data) / 5)
               in Inr (recs\<lparr>new_relationship_types := new_relationship_types recs @
                               [\<lparr>rr_name = rel_type, rr_source = source_label,
                                 rr_target = target_label, rr_frequency = rp_count data,
                                 rr_proposed_properties = common_props 2 (rp_properties data)\<rparr>],
                             confidence_scores := dict_set (confidence_scores recs)
                               (''relationship_type:'' @ rel_key) confidence\<rparr>)
         | _ \<Rightarrow> Inl ValueError)"

fun propose_relationships ::
  "(string \<times> string \<times> string) list \<Rightarrow> recommendations \<Rightarrow> (string \<times> rel_pattern) list
   \<Rightarrow> py_error + recommendations" where
  "propose_relationships existing recs [] = Inr recs"
| "propose_relationships existing recs (kd # kds) =
     (case propose_relationship existing recs kd of
        Inl e \<Rightarrow> Inl e
      | Inr recs' \<Rightarrow> propose_relationships existing recs' kds)"

text \<open>The last loop: new properties for the entity types that the schema has already.\<close>

definition propose_properties :: "schema_state \<Rightarrow> scan \<Rightarrow> recommendations \<Rightarrow> string \<Rightarrow> recommendations" where
  "propose_properties s sc recs entity_type =
     (case map_of (property_sets sc) entity_type of
        None \<Rightarrow> recs
      | Some observed \<Rightarrow>
          let current_props = (case map_of (g_nodes (schema_graph s)) entity_type of
                                 None \<Rightarrow> []
                               | Some node_data \<Rightarrow> map fst (n_properties node_data));
              fresh = filter (\<lambda>(prop_name, prop_data).
                         prop_name \<notin> set current_props \<and> obs_count prop_data \<ge> 3) observed;
              new_props = foldl (\<lambda>d (prop_name, prop_data).
                            dict_set d prop_name (analyze_property prop_name prop_data)) [] fresh;
              scores = foldl (\<lambda>d (prop_name, prop_data).
                         dict_set d (''property:'' @ entity_type @ ''.'' @ prop_name)
                           (min 1 (of_nat (obs_count prop_data) / 10)))
                       (confidence_scores recs) fresh
          in (recs\<lparr>confidence_scores := scores\<rparr>)
               \<lparr>new_property_types :=
                  (if new_props = [] then new_property_types recs
                   else dict_set (new_property_types recs) entity_type new_props)\<rparr>)"

text \<open>
  \<^verbatim>\<open>existing_rel_types = {r['name']: (r['source'], r['target']) for r in ...}\<close>: a later
  relationship type of the same name overwrites an earlier one.
\<close>

definition existing_rel_types :: "schema_state \<Rightarrow> (string \<times> string \<times> string) list" where
  "existing_rel_types s =
     foldl (\<lambda>d r. dict_set d (rt_name r) (rt_source r, rt_target r)) []
       (get_relationship_types s)"

text \<open>
  \<^verbatim>\<open>analyze_instance_data\<close>. The method has no statement that assigns to an attribute of
  \<^verbatim>\<open>self\<close> or changes the schema graph; the model returns the state next to the result to
  say so. The result is the recommendations, or the exception that ended the call.
\<close>

definition analyze_instance_data ::
  "schema_state \<Rightarrow> instance_data \<Rightarrow> (py_error + recommendations) \<times> schema_state" where
  "analyze_instance_data s instance_data =
     (let recommendations = \<lparr>new_entity_types = [], new_property_types = [],
                              new_relationship_types = [], confidence_scores = []\<rparr>;
          existing_entity_types = remdups (get_entity_types s);
          existing = existing_rel_types s;
          sc = scan_nodes (nodes instance_data);
          recs1 = foldl (propose_entity existing_entity_types sc) recommendations (all_labels sc);
          rel_patterns = foldl (scan_edge (nodes instance_data)) [] (edges_of instance_data)
      in case propose_relationships existing recs1 rel_patterns of
           Inl e \<Rightarrow> (Inl e, s)
         | Inr recs2 \<Rightarrow>
             (Inr (foldl (propose_properties s sc) recs2 existing_entity_types), s))"

section \<open>Applying recommendations (\<^verbatim>\<open>evolve_schema\<close>)\<close>

record applied_entity =
  ae_name :: string
  ae_properties :: prop_defs
  ae_confidence :: rat

record applied_prop =
  apd_definition :: prop_def
  apd_confidence :: rat

record applied_rel =
  ar_name :: string
  ar_source :: string
  ar_target :: string
  ar_properties :: prop_defs
  ar_confidence :: rat

record applied_changes =
  ac_new_entity_types :: "applied_entity list"
  ac_new_property_types :: "(string \<times> (string \<times> applied_prop) list) list"
  ac_new_relationship_types :: "applied_rel list"

text \<open>The property definition that \<^verbatim>\<open>evolve_schema\<close> builds from an analysed property.\<close>

definition to_prop_def :: "analyzed_prop \<Rightarrow> prop_def" where
  "to_prop_def p = \<lparr>pd_type = ap_type p, pd_required = Some (ap_required p), pd_enum = ap_enum p\<rparr>"

definition to_prop_defs :: "(string \<times> analyzed_prop) list \<Rightarrow> prop_defs" where
  "to_prop_defs props = foldl (\<lambda>d (prop_name, p). dict_set d prop_name (to_prop_def p)) [] props"

definition score_of :: "recommendations \<Rightarrow> string \<Rightarrow> rat" where
  "score_of recs key = (case map_of (confidence_scores recs) key of None \<Rightarrow> 0 | Some c \<Rightarrow> c)"

definition apply_entity ::
  "string \<Rightarrow> recommendations \<Rightarrow> rat \<Rightarrow> applied_changes \<times> schema_state \<Rightarrow> entity_rec
   \<Rightarrow> applied_changes \<times> schema_state" where
  "apply_entity now recs threshold acc entity_rec =
     (let applied = fst acc; s = snd acc;
          entity_name = er_name entity_rec;
          confidence = score_of recs (''entity_type:'' @ entity_name)
      in if confidence \<ge> threshold
         then
           let properties = to_prop_defs (er_proposed_properties entity_rec);
               r = add_entity_type now s entity_name properties []
           in if fst r
              then (applied\<lparr>ac_new_entity_types := ac_new_entity_types applied @
                       [\<lparr>ae_name = entity_name, ae_properties = properties,
                         ae_confidence = confidence\<rparr>]\<rparr>, snd r)
              else (applied, snd r)
         else (applied, s))"

text \<open>
  One new property of an entity type that exists:
  \<^verbatim>\<open>node_data['properties'][prop_name] = prop_def\<close> followed by
  \<^verbatim>\<open>self.schema_graph.nodes[entity_type].update(node_data)\<close>, which raises \<^verbatim>\<open>KeyError\<close>
  for a name that is not a node.
\<close>

definition set_node_property :: "digraph \<Rightarrow> string \<Rightarrow> string \<Rightarrow> prop_def \<Rightarrow> py_error + digraph" where
  "set_node_property g entity_type prop_name pd =
     (case map_of (g_nodes g) entity_type of
        None \<Rightarrow> Inl KeyError
      | Some node_data \<Rightarrow>
          Inr (g\<lparr>g_nodes := dict_set (g_nodes g) entity_type
                 (node_data\<lparr>n_properties := dict_set (n_properties node_data) prop_name pd\<rparr>)\<rparr>))"

fun apply_props ::
  "recommendations \<Rightarrow> rat \<Rightarrow> string \<Rightarrow> (string \<times> applied_prop) list \<Rightarrow> schema_state
   \<Rightarrow> (string \<times> analyzed_prop) list \<Rightarrow> py_error + (string \<times> applied_prop) list \<times> schema_state" where
  "apply_props recs threshold entity_type applied_props s [] = Inr (applied_props, s)"
| "apply_props recs threshold entity_type applied_props s ((prop_name, prop_data) # rest) =
     (let confidence = score_of recs (''property:'' @ entity_type @ ''.'' @ prop_name)
      in if confidence \<ge> threshold
         then (case set_node_property (schema_graph s) entity_type prop_name (to_prop_def prop_data) of
                 Inl e \<Rightarrow> Inl e
               | Inr g \<Rightarrow>
                   apply_props recs threshold entity_type
                     (dict_set applied_props prop_name
                        \<lparr>apd_definition = to_prop_def prop_data, apd_confidence = confidence\<rparr>)
                     (s\<lparr>schema_graph := g\<rparr>) rest)
         else apply_props recs threshold entity_type applied_props s rest)"

fun apply_property_types ::
  "string \<Rightarrow> recommendations \<Rightarrow> rat \<Rightarrow> applied_changes \<Rightarrow> schema_state
   \<Rightarrow> (string \<times> (string \<times> analyzed_prop) list) list \<Rightarrow> py_error + applied_changes \<times> schema_state" where
  "apply_property_types now recs threshold applied s [] = Inr (applied, s)"
| "apply_property_types now recs threshold applied s ((entity_type, new_props) # rest) =
     (case apply_props recs threshold entity_type [] s new_props of
        Inl e \<Rightarrow> Inl e
      | Inr (applied_props, s1) \<Rightarrow>
          if applied_props = []
          then apply_property_types now recs threshold applied s1 rest
          else apply_property_types now recs threshold
                 (applied\<lparr>ac_new_property_types :=
                     dict_set (ac_new_property_types applied) entity_type applied_props\<rparr>)
                 (record_schema_version now s1
                    (''Added new properties to '' @ entity_type @ '': ''
                     @ py_join '', '' (map fst applied_props)))
                 rest)"

definition apply_relationship ::
  "string \<Rightarrow> recommendations \<Rightarrow> rat \<Rightarrow> applied_changes \<times> schema_state \<Rightarrow> rel_rec
   \<Rightarrow> applied_changes \<times> schema_state" where
  "apply_relationship now recs threshold acc rel_rec =
     (let applied = fst acc; s = snd acc;
          rel_name = rr_name rel_rec; source = rr_source rel_rec; target = rr_target rel_rec;
          rel_key = rel_name @ '':'' @ source @ '':'' @ target;
          confidence = score_of recs (''relationship_type:'' @ rel_key)
      in if confidence \<ge> threshold
         then
           let properties = to_prop_defs (rr_proposed_properties rel_rec);
               r = add_relationship_type now s rel_name source target properties []
           in if fst r
              then (applied\<lparr>ac_new_relationship_types := ac_new_relationship_types applied @
                       [\<lparr>ar_name = rel_name, ar_source = source, ar_target = target,
                         ar_properties = properties, ar_confidence = confidence\<rparr>]\<rparr>, snd r)
              else (applied, snd r)
         else (applied, s))"

text \<open>
  \<^verbatim>\<open>evolve_schema\<close>: the analysis first, then the three groups of changes in the order of
  the source, then \<^verbatim>\<open>_update_schema_metrics\<close>. An exception leaves the state as it is at
  that moment.
\<close>

definition evolve_schema ::
  "string \<Rightarrow> schema_state \<Rightarrow> instance_data \<Rightarrow> rat \<Rightarrow> (py_error + applied_changes) \<times> schema_state" where
  "evolve_schema now s instance_data threshold =
     (case fst (analyze_instance_data s instance_data) of
        Inl e \<Rightarrow> (Inl e, s)
      | Inr recs \<Rightarrow>
          let a0 = \<lparr>ac_new_entity_types = [], ac_new_property_types = [],
                    ac_new_relationship_types = []\<rparr>;
              r1 = foldl (apply_entity now recs threshold) (a0, s) (new_entity_types recs)
          in case apply_property_types now recs threshold (fst r1) (snd r1)
                    (new_property_types recs) of
               Inl e \<Rightarrow> (Inl e, snd r1)
             | Inr r2 \<Rightarrow>
                 let r3 = foldl (apply_relationship now recs threshold) r2
                            (new_relationship_types recs)
                 in (Inr (fst r3), update_schema_metrics (snd r3)))"

section \<open>Quality scores as a predicate, and a small schema\<close>

text \<open>The two equations that the quality scores of a state obey once they are recomputed.\<close>

definition scores_formula :: "schema_state \<Rightarrow> bool" where
  "scores_formula s =
     (let q = quality_scores s
      in coverage q = min 1 ((of_nat (length (get_entity_types s)) / 15
                              + of_nat (length (get_relationship_types s)) / 25) / 2)
       \<and> overall q = Some ((coverage q + consistency q + connectivity q) / 3))"

text \<open>Two entity types and one relationship type between them, built by the mutators.\<close>

definition policy_coverage_schema :: schema_state where
  "policy_coverage_schema =
     snd (add_entity_type ''t2''
            (snd (add_entity_type ''t1'' empty_schema ''Policy'' [] [])) ''Coverage'' [] [])"

definition has_coverage_schema :: schema_state where
  "has_coverage_schema =
     snd (add_relationship_type ''t3'' policy_coverage_schema
            ''HAS_COVERAGE'' ''Policy'' ''Coverage'' [] [])"

section \<open>An instance batch with a colon in a relationship type\<close>

text \<open>
  An instance batch of two nodes and one edge whose type, \<open>OWNS:X\<close>, contains a colon, and
  a schema that knows the entity type \<open>Person\<close>.
\<close>

definition person_schema :: schema_state where
  "person_schema =
     snd (add_entity_type ''t1'' empty_schema ''Person''
            [(''name'', \<lparr>pd_type = ''string'', pd_required = None, pd_enum = None\<rparr>)] [])"

definition colon_batch :: instance_data where
  "colon_batch =
     \<lparr>nodes = [\<lparr>in_id = ''p1'', in_labels = [''Person''],
                 in_properties = [(''name'', VStr ''John Doe'')]\<rparr>,
               \<lparr>in_id = ''c1'', in_labels = [''Car''],
                 in_properties = [(''make'', VStr ''Toyota'')]\<rparr>],
      edges_of = [\<lparr>ie_source = ''p1'', ie_target = ''c1'', ie_type = ''OWNS:X'',
                   ie_properties = []\<rparr>]\<rparr>"

section \<open>Intent patterns (\<^verbatim>\<open>_initialize_intent_patterns\<close>, \<^verbatim>\<open>analyze_intent\<close>)\<close>

text \<open>
  The regular expressions of the intent patterns use literal characters, \<^verbatim>\<open>.\<close>, \<^verbatim>\<open>\s\<close>,
  \<^verbatim>\<open>\w\<close>, sequence, alternation, \<^verbatim>\<open>*\<close> and \<^verbatim>\<open>+\<close>; each starts with the flag \<^verbatim>\<open>(?i)\<close>,
  so a literal matches either case of a letter. Groups only bracket. \<open>Null\<close> matches
  nothing and \<open>Eps\<close> the empty string.
\<close>

datatype regex =
  Null | Eps | Chr char | Dot | Space | Word
  | Seq regex regex | Alt regex regex | Star regex

definition is_space :: "char \<Rightarrow> bool" where
  "is_space c = (c \<in> set [CHR '' '', CHR 0x09, CHR 0x0A, CHR 0x0B, CHR 0x0C, CHR 0x0D])"

definition is_word :: "char \<Rightarrow> bool" where
  "is_word c =
     (let n = (of_char c :: nat)
      in (48 \<le> n \<and> n \<le> 57) \<or> (65 \<le> n \<and> n \<le> 90) \<or> (97 \<le> n \<and> n \<le> 122) \<or> n = 95)"

fun nullable :: "regex \<Rightarrow> bool" where
  "nullable Null = False"
| "nullable Eps = True"
| "nullable (Chr c) = False"
| "nullable Dot = False"
| "nullable Space = False"
| "nullable Word = False"
| "nullable (Seq r s) = (nullable r \<and> nullable s)"
| "nullable (Alt r s) = (nullable r \<or> nullable s)"
| "nullable (Star r) = True"

text \<open>Sequence and alternation that drop the branches that cannot match.\<close>

definition seq :: "regex \<Rightarrow> regex \<Rightarrow> regex" where
  "seq r s = (if r = Null \<or> s = Null then Null else if r = Eps then s else Seq r s)"

definition alt :: "regex \<Rightarrow> regex \<Rightarrow> regex" where
  "alt r s = (if r = Null then s else if s = Null then r else if r = s then r else Alt r s)"

text \<open>The expression for what may follow after the character \<open>c\<close> has been read.\<close>

fun deriv :: "char \<Rightarrow> regex \<Rightarrow> regex" where
  "deriv c Null = Null"
| "deriv c Eps = Null"
| "deriv c (Chr d) = (if lower_char c = lower_char d then Eps else Null)"
| "deriv c Dot = (if c = CHR 0x0A then Null else Eps)"
| "deriv c Space = (if is_space c then Eps else Null)"
| "deriv c Word = (if is_word c then Eps else Null)"
| "deriv c (Seq r s) =
     (if nullable r then alt (seq (deriv c r) s) (deriv c s) else seq (deriv c r) s)"
| "deriv c (Alt r s) = alt (deriv c r) (deriv c s)"
| "deriv c (Star r) = seq (deriv c r) (Star r)"

text \<open>
  \<^verbatim>\<open>re.match(pattern, text)\<close> finds a match that starts at the first character and may end
  anywhere: some prefix of the text belongs to the expression.
\<close>

fun re_match :: "regex \<Rightarrow> string \<Rightarrow> bool" where
  "re_match r [] = nullable r"
| "re_match r (c # cs) = (nullable r \<or> (r \<noteq> Null \<and> re_match (deriv c r) cs))"

definition lit :: "string \<Rightarrow> regex" where
  "lit s = foldr (\<lambda>c r. Seq (Chr c) r) s Eps"

definition seqs :: "regex list \<Rightarrow> regex" where
  "seqs rs = foldr Seq rs Eps"

fun alts :: "string list \<Rightarrow> regex" where
  "alts [] = Null"
| "alts [s] = lit s"
| "alts (s # t # ss) = Alt (lit s) (alts (t # ss))"

abbreviation any :: regex where "any \<equiv> Star Dot"
abbreviation sp1 :: regex where "sp1 \<equiv> Seq Space (Star Space)"

text \<open>
  The patterns of the six intents, in the order in which the dictionary holds them. The
  source text of each pattern stands before its translation.
\<close>

definition policy_details_patterns :: "regex list" where
  \<open>policy_details_patterns =
     [\<comment> \<open>\<^verbatim>\<open>(?i).*policy\s+details.*\<close>\<close>
      seqs [any, lit ''policy'', sp1, lit ''details'', any],
      \<comment> \<open>\<^verbatim>\<open>(?i).*information\s+about\s+(?:my|a|the)\s+policy.*\<close>\<close>
      seqs [any, lit ''information'', sp1, lit ''about'', sp1, alts [''my'', ''a'', ''the''],
            sp1, lit ''policy'', any],
      \<comment> \<open>\<^verbatim>\<open>(?i).*what\s+(?:is|are)\s+(?:in|on|the)\s+(?:my|the)\s+policy.*\<close>\<close>
      seqs [any, lit ''what'', sp1, alts [''is'', ''are''], sp1, alts [''in'', ''on'', ''the''],
            sp1, alts [''my'', ''the''], sp1, lit ''policy'', any],
      \<comment> \<open>\<^verbatim>\<open>(?i).*tell\s+me\s+about\s+(?:my|a|the)\s+policy.*\<close>\<close>
      seqs [any, lit ''tell'', sp1, lit ''me'', sp1, lit ''about'', sp1,
            alts [''my'', ''a'', ''the''], sp1, lit ''policy'', any]]\<close>

definition coverage_inquiry_patterns :: "regex list" where
  \<open>coverage_inquiry_patterns =
     [\<comment> \<open>\<^verbatim>\<open>(?i).*what\s+(?:is|does)\s+(?:my|the)\s+policy\s+cover.*\<close>\<close>
      seqs [any, lit ''what'', sp1, alts [''is'', ''does''], sp1, alts [''my'', ''the''], sp1,
            lit ''policy'', sp1, lit ''cover'', any],
      \<comment> \<open>\<^verbatim>\<open>(?i).*coverage\s+(?:details|information).*\<close>\<close>
      seqs [any, lit ''coverage'', sp1, alts [''details'', ''information''], any],
      \<comment> \<open>\<^verbatim>\<open>(?i).*what\s+(?:are|is)\s+(?:my|the)\s+coverage.*\<close>\<close>
      seqs [any, lit ''what'', sp1, alts [''are'', ''is''], sp1, alts [''my'', ''the''], sp1,
            lit ''coverage'', any],
      \<comment> \<open>\<^verbatim>\<open>(?i).*covered\s+under\s+(?:my|the)\s+policy.*\<close>\<close>
      seqs [any, lit ''covered'', sp1, lit ''under'', sp1, alts [''my'', ''the''], sp1,
            lit ''policy'', any]]\<close>

definition claim_status_patterns :: "regex list" where
  \<open>claim_status_patterns =
     [\<comment> \<open>\<^verbatim>\<open>(?i).*status\s+of\s+(?:my|the|a)\s+claim.*\<close>\<close>
      seqs [any, lit ''status'', sp1, lit ''of'', sp1, alts [''my'', ''the'', ''a''], sp1,
            lit ''claim'', any],
      \<comment> \<open>\<^verbatim>\<open>(?i).*claim\s+(?:status|update|progress).*\<close>\<close>
      seqs [any, lit ''claim'', sp1, alts [''status'', ''update'', ''progress''], any],
      \<comment> \<open>\<^verbatim>\<open>(?i).*what\'s\s+happening\s+with\s+(?:my|the)\s+claim.*\<close>\<close>
      seqs [any, lit (''what'' @ [CHR 0x27] @ ''s''), sp1, lit ''happening'', sp1, lit ''with'',
            sp1, alts [''my'', ''the''], sp1, lit ''claim'', any],
      \<comment> \<open>\<^verbatim>\<open>(?i).*where\s+is\s+(?:my|the)\s+claim.*\<close>\<close>
      seqs [any, lit ''where'', sp1, lit ''is'', sp1, alts [''my'', ''the''], sp1,
            lit ''claim'', any]]\<close>

definition premium_information_patterns :: "regex list" where
  \<open>premium_information_patterns =
     [\<comment> \<open>\<^verbatim>\<open>(?i).*(?:my|the)\s+premium.*\<close>\<close>
      seqs [any, alts [''my'', ''the''], sp1, lit ''premium'', any],
      \<comment> \<open>\<^verbatim>\<open>(?i).*how\s+much\s+(?:is|does|do)\s+(?:my|the|I)\s+(?:premium|pay|cost).*\<close>\<close>
      seqs [any, lit ''how'', sp1, lit ''much'', sp1, alts [''is'', ''does'', ''do''], sp1,
            alts [''my'', ''the'', ''I''], sp1, alts [''premium'', ''pay'', ''cost''], any],
      \<comment> \<open>\<^verbatim>\<open>(?i).*payment\s+(?:amount|details|schedule).*\<close>\<close>
      seqs [any, lit ''payment'', sp1, alts [''amount'', ''details'', ''schedule''], any],
      \<comment> \<open>\<^verbatim>\<open>(?i).*when\s+(?:is|are)\s+(?:my|the)\s+payment.*\<close>\<close>
      seqs [any, lit ''when'', sp1, alts [''is'', ''are''], sp1, alts [''my'', ''the''], sp1,
            lit ''payment'', any]]\<close>

definition filing_claim_patterns :: "regex list" where
  \<open>filing_claim_patterns =
     [\<comment> \<open>\<^verbatim>\<open>(?i).*(?:how|can|do)\s+(?:to|I|you)\s+file\s+a\s+claim.*\<close>\<close>
      seqs [any, alts [''how'', ''can'', ''do''], sp1, alts [''to'', ''I'', ''you''], sp1,
            lit ''file'', sp1, lit ''a'', sp1, lit ''claim'', any],
      \<comment> \<open>\<^verbatim>\<open>(?i).*(?:submit|start|begin|initiate)\s+a\s+(?:new|)\s*claim.*\<close>\<close>
      seqs [any, alts [''submit'', ''start'', ''begin'', ''initiate''], sp1, lit ''a'', sp1,
            alts [''new'', ''''], Star Space, lit ''claim'', any],
      \<comment> \<open>\<^verbatim>\<open>(?i).*claim\s+(?:filing|submission)\s+process.*\<close>\<close>
      seqs [any, lit ''claim'', sp1, alts [''filing'', ''submission''], sp1, lit ''process'', any],
      \<comment> \<open>\<^verbatim>\<open>(?i).*report\s+(?:a|an|the)\s+(?:accident|incident|loss|damage).*\<close>\<close>
      seqs [any, lit ''report'', sp1, alts [''a'', ''an'', ''the''], sp1,
            alts [''accident'', ''incident'', ''loss'', ''damage''], any]]\<close>

definition definition_inquiry_patterns :: "regex list" where
  \<open>definition_inquiry_patterns =
     [\<comment> \<open>\<^verbatim>\<open>(?i).*what\s+(?:does|is|are)\s+(\w+)\s+mean.*\<close>\<close>
      seqs [any, lit ''what'', sp1, alts [''does'', ''is'', ''are''], sp1,
            Seq Word (Star Word), sp1, lit ''mean'', any],
      \<comment> \<open>\<^verbatim>\<open>(?i).*define\s+(\w+).*\<close>\<close>
      seqs [any, lit ''define'', sp1, Seq Word (Star Word), any],
      \<comment> \<open>\<^verbatim>\<open>(?i).*meaning\s+of\s+(\w+).*\<close>\<close>
      seqs [any, lit ''meaning'', sp1, lit ''of'', sp1, Seq Word (Star Word), any],
      \<comment> \<open>\<^verbatim>\<open>(?i).*definition\s+of\s+(\w+).*\<close>\<close>
      seqs [any, lit ''definition'', sp1, lit ''of'', sp1, Seq Word (Star Word), any]]\<close>

definition intent_patterns :: "(string \<times> regex list) list" where
  "intent_patterns =
     [(''policy_details'', policy_details_patterns),
      (''coverage_inquiry'', coverage_inquiry_patterns),
      (''claim_status'', claim_status_patterns),
      (''premium_information'', premium_information_patterns),
      (''filing_claim'', filing_claim_patterns),
      (''definition_inquiry'', definition_inquiry_patterns)]"

text \<open>
  The first loop of \<^verbatim>\<open>analyze_intent\<close>: for each intent with at least one matching
  pattern, the number of its patterns that match.
\<close>

definition pattern_matches :: "(string \<times> regex list) list \<Rightarrow> string \<Rightarrow> (string \<times> nat) list" where
  "pattern_matches ips query_text =
     filter (\<lambda>(intent, n). n > 0)
       (map (\<lambda>(intent, patterns).
               (intent, length (filter (\<lambda>pattern. re_match pattern query_text) patterns))) ips)"

text \<open>\<^verbatim>\<open>max(d.items(), key=lambda x: x[1])\<close>: the first item with the largest value.\<close>

fun max_item :: "string \<times> 'a::linorder \<Rightarrow> (string \<times> 'a) list \<Rightarrow> string \<times> 'a" where
  "max_item best [] = best"
| "max_item best (x # xs) = max_item (if snd x > snd best then x else best) xs"

text \<open>The result dictionary with its keys \<^verbatim>\<open>intent\<close>, \<^verbatim>\<open>confidence\<close> and \<^verbatim>\<open>method\<close>.\<close>

record intent_result =
  ir_intent :: string
  ir_confidence :: rat
  ir_method :: string

text \<open>
  \<^verbatim>\<open>analyze_intent\<close>. The cosine similarities between the embedding of the query and the
  embeddings of the intents come from an external model; they are the input \<open>similarities\<close>,
  in the order of \<^verbatim>\<open>self.intent_embeddings\<close>.
\<close>

definition analyze_intent :: "(string \<times> rat) list \<Rightarrow> string \<Rightarrow> intent_result" where
  "analyze_intent similarities query_text =
     (case pattern_matches intent_patterns query_text of
        m # ms \<Rightarrow>
          let best = max_item m ms
          in \<lparr>ir_intent = fst best, ir_confidence = min (9 / 10) (7 / 10 + 1 / 10 * of_nat (snd best)),
              ir_method = ''pattern''\<rparr>
      | [] \<Rightarrow>
          (case similarities of
             x # xs \<Rightarrow>
               let best = max_item x xs; confidence = snd best
               in if confidence < 6 / 10
                  then \<lparr>ir_intent = ''unknown'', ir_confidence = 1 - confidence, ir_method = ''default''\<rparr>
                  else \<lparr>ir_intent = fst best, ir_confidence = confidence, ir_method = ''embedding''\<rparr>
           | [] \<Rightarrow> \<lparr>ir_intent = ''unknown'', ir_confidence = 0, ir_method = ''default''\<rparr>))"

section \<open>The knowledge graph and graph queries\<close>

text \<open>
  Property values of the knowledge graph: \<^verbatim>\<open>None\<close>, Booleans, integers, floats (exact
  rationals here), strings and lists. Dictionary-valued properties are not modelled.
\<close>

datatype pyval = PNone | PBool bool | PInt int | PFloat rat | PStr string | PList "pyval list"

text \<open>
  \<^verbatim>\<open>isinstance(v, (int, float))\<close> holds for integers, floats and Booleans (\<^verbatim>\<open>bool\<close> is a
  subclass of \<^verbatim>\<open>int\<close>); \<open>num_of\<close> gives the number that such a value stands for.
\<close>

fun num_of :: "pyval \<Rightarrow> rat option" where
  "num_of (PBool b) = Some (if b then 1 else 0)"
| "num_of (PInt i) = Some (of_int i)"
| "num_of (PFloat r) = Some r"
| "num_of v = None"

text \<open>Python's \<^verbatim>\<open>==\<close>: numbers by value, strings and lists by content, \<^verbatim>\<open>None\<close> with itself.\<close>

fun py_eq :: "pyval \<Rightarrow> pyval \<Rightarrow> bool" where
  "py_eq PNone PNone = True"
| "py_eq (PStr a) (PStr b) = (a = b)"
| "py_eq (PList []) (PList []) = True"
| "py_eq (PList (x # xs)) (PList (y # ys)) = (py_eq x y \<and> py_eq (PList xs) (PList ys))"
| "py_eq (PList xs) (PList ys) = False"
| "py_eq a b = (case (num_of a, num_of b) of (Some x, Some y) \<Rightarrow> x = y | _ \<Rightarrow> False)"

text \<open>
  \<^verbatim>\<open>isinstance(pv, (int, float)) and pv > fv\<close> and the same with \<^verbatim>\<open><\<close>: false when the
  property value is not a number, \<^verbatim>\<open>TypeError\<close> when it is one and the filter value is not.
\<close>

definition num_compare :: "(rat \<Rightarrow> rat \<Rightarrow> bool) \<Rightarrow> pyval \<Rightarrow> pyval \<Rightarrow> py_error + bool" where
  "num_compare rel property_value filter_value =
     (case num_of property_value of
        None \<Rightarrow> Inr False
      | Some x \<Rightarrow> (case num_of filter_value of
                     None \<Rightarrow> Inl TypeError
                   | Some y \<Rightarrow> Inr (rel x y)))"

record node_data =
  labels :: "string list"
  properties :: "(string \<times> pyval) list"

text \<open>
  \<^verbatim>\<open>self.knowledge_graph = nx.MultiDiGraph()\<close>. \<open>kg_nodes\<close> is the node dictionary (an
  absent \<^verbatim>\<open>labels\<close> or \<^verbatim>\<open>properties\<close> attribute reads as empty, as \<^verbatim>\<open>data.get\<close> does);
  \<open>kg_edges\<close> holds each edge as (source, target, key), in the order in which the graph
  yields the edges. The executor never reads the attributes of an edge.
\<close>

record kgraph =
  kg_nodes :: "(string \<times> node_data) list"
  kg_edges :: "(string \<times> string \<times> string) list"

text \<open>
  A filter is a dictionary that the executor reads with \<^verbatim>\<open>.get\<close>: any of \<^verbatim>\<open>node\<close>,
  \<^verbatim>\<open>property\<close> and \<^verbatim>\<open>operator\<close> may be absent, an absent \<^verbatim>\<open>value\<close> reads as \<^verbatim>\<open>None\<close>,
  and a compound filter carries \<^verbatim>\<open>conditions\<close>.
\<close>

datatype filter_spec =
  Filter (f_node: "string option") (f_property: "string option") (f_operator: "string option")
         (f_value: pyval) (f_conditions: "filter_spec list")

record start_spec =
  ss_label :: string
  ss_alias :: string

record path_spec =
  from_alias :: string
  from_label :: string
  rel_type :: string
  rel_direction :: string
  to_alias :: string
  to_label :: string

record return_spec =
  rs_node :: string
  rs_property :: string

record graph_query =
  start_nodes :: "start_spec list"
  paths :: "path_spec list"
  return_properties :: "return_spec list"
  filters :: "filter_spec list"
  is_procedural :: bool
  procedural_data :: "(string \<times> string) list"

section \<open>Building a graph query (\<^verbatim>\<open>build_graph_query\<close>)\<close>

text \<open>The parameters that \<^verbatim>\<open>build_graph_query\<close> looks for; \<open>None\<close> is an absent key.\<close>

record query_params =
  policy_number :: "pyval option"
  policy_type :: "pyval option"
  user_id :: "pyval option"
  claim_number :: "pyval option"
  coverage_types :: "pyval list option"

definition no_params :: query_params where
  "no_params = \<lparr>policy_number = None, policy_type = None, user_id = None, claim_number = None,
                 coverage_types = None\<rparr>"

definition simple_filter :: "string \<Rightarrow> string \<Rightarrow> pyval \<Rightarrow> filter_spec" where
  "simple_filter node property v = Filter (Some node) (Some property) (Some ''='') v []"

text \<open>\<^verbatim>\<open>if key in params: graph_query['filters'].append({...})\<close>.\<close>

definition filter_if :: "string \<Rightarrow> string \<Rightarrow> pyval option \<Rightarrow> filter_spec list" where
  "filter_if node property p = (case p of None \<Rightarrow> [] | Some v \<Rightarrow> [simple_filter node property v])"

definition empty_query :: graph_query where
  "empty_query = \<lparr>start_nodes = [], paths = [], return_properties = [], filters = [],
                   is_procedural = False, procedural_data = []\<rparr>"

definition step_out :: "string \<Rightarrow> string \<Rightarrow> string \<Rightarrow> string \<Rightarrow> string \<Rightarrow> path_spec" where
  "step_out f_alias f_label rel t_alias t_label =
     \<lparr>from_alias = f_alias, from_label = f_label, rel_type = rel,
      rel_direction = ''outgoing'', to_alias = t_alias, to_label = t_label\<rparr>"

definition build_graph_query :: "string \<Rightarrow> query_params \<Rightarrow> graph_query" where
  "build_graph_query intent params =
     (if intent = ''policy_details'' then
        empty_query
          \<lparr>start_nodes := [\<lparr>ss_label = ''Policy'', ss_alias = ''p''\<rparr>],
           paths := (case user_id params of None \<Rightarrow> []
                     | Some u \<Rightarrow> [step_out ''p'' ''Policy'' ''INSURES'' ''i'' ''Insured'']),
           return_properties :=
             [\<lparr>rs_node = ''p'', rs_property = ''policy_number''\<rparr>,
              \<lparr>rs_node = ''p'', rs_property = ''effective_date''\<rparr>,
              \<lparr>rs_node = ''p'', rs_property = ''expiration_date''\<rparr>,
              \<lparr>rs_node = ''p'', rs_property = ''status''\<rparr>,
              \<lparr>rs_node = ''p'', rs_property = ''type''\<rparr>]
             @ (case user_id params of None \<Rightarrow> []
                | Some u \<Rightarrow> [\<lparr>rs_node = ''i'', rs_property = ''name''\<rparr>]),
           filters := filter_if ''p'' ''policy_number'' (policy_number params)
                      @ filter_if ''p'' ''type'' (policy_type params)
                      @ filter_if ''i'' ''id_number'' (user_id params)\<rparr>
      else if intent = ''coverage_inquiry'' then
        empty_query
          \<lparr>start_nodes := [\<lparr>ss_label = ''Policy'', ss_alias = ''p''\<rparr>],
           paths := [step_out ''p'' ''Policy'' ''HAS_COVERAGE'' ''c'' ''Coverage''],
           return_properties :=
             [\<lparr>rs_node = ''p'', rs_property = ''policy_number''\<rparr>,
              \<lparr>rs_node = ''c'', rs_property = ''type''\<rparr>,
              \<lparr>rs_node = ''c'', rs_property = ''limit''\<rparr>,
              \<lparr>rs_node = ''c'', rs_property = ''deductible''\<rparr>],
           filters := filter_if ''p'' ''policy_number'' (policy_number params)
                      @ (case coverage_types params of
                           None \<Rightarrow> []
                         | Some [] \<Rightarrow> []
                         | Some cts \<Rightarrow>
                             [Filter None None (Some ''OR'') PNone
                                (map (simple_filter ''c'' ''type'') cts)])\<rparr>
      else if intent = ''claim_status'' then
        empty_query
          \<lparr>start_nodes := (case user_id params of
                             None \<Rightarrow> [\<lparr>ss_label = ''Claim'', ss_alias = ''c''\<rparr>]
                           | Some u \<Rightarrow> [\<lparr>ss_label = ''Insured'', ss_alias = ''i''\<rparr>]),
           paths := (case user_id params of None \<Rightarrow> []
                     | Some u \<Rightarrow> [step_out ''i'' ''Insured'' ''FILES_CLAIM'' ''c'' ''Claim'']),
           return_properties :=
             [\<lparr>rs_node = ''c'', rs_property = ''claim_number''\<rparr>,
              \<lparr>rs_node = ''c'', rs_property = ''date_of_loss''\<rparr>,
              \<lparr>rs_node = ''c'', rs_property = ''status''\<rparr>,
              \<lparr>rs_node = ''c'', rs_property = ''amount''\<rparr>],
           filters := filter_if ''c'' ''claim_number'' (claim_number params)
                      @ filter_if ''i'' ''id_number'' (user_id params)\<rparr>
      else if intent = ''premium_information'' then
        empty_query
          \<lparr>start_nodes := [\<lparr>ss_label = ''Policy'', ss_alias = ''p''\<rparr>],
           paths := [step_out ''p'' ''Policy'' ''HAS_PREMIUM'' ''pr'' ''Premium'']
                    @ (case user_id params of None \<Rightarrow> []
                       | Some u \<Rightarrow> [step_out ''p'' ''Policy'' ''INSURES'' ''i'' ''Insured'']),
           return_properties :=
             [\<lparr>rs_node = ''p'', rs_property = ''policy_number''\<rparr>,
              \<lparr>rs_node = ''pr'', rs_property = ''amount''\<rparr>,
              \<lparr>rs_node = ''pr'', rs_property = ''payment_frequency''\<rparr>,
              \<lparr>rs_node = ''pr'', rs_property = ''due_date''\<rparr>],
           filters := filter_if ''p'' ''policy_number'' (policy_number params)
                      @ filter_if ''i'' ''id_number'' (user_id params)\<rparr>
      else if intent = ''filing_claim'' then
        empty_query
          \<lparr>is_procedural := True,
           procedural_data :=
             [(''required_info'',
               ''policy information, date and details of incident, photos if applicable''),
              (''contact_info'', ''1-800-555-CLAIM or claims@example-insurance.com'')]\<rparr>
      else
        empty_query
          \<lparr>start_nodes := [\<lparr>ss_label = ''Policy'', ss_alias = ''p''\<rparr>],
           return_properties := [\<lparr>rs_node = ''p'', rs_property = ''policy_number''\<rparr>]\<rparr>)"

section \<open>Executing a graph query (\<^verbatim>\<open>execute_graph_query\<close>)\<close>

text \<open>
  The operator of a simple filter on a start node (lines 908 to 926): \<^verbatim>\<open>=\<close> on two strings
  compares their lower-case forms; an operator other than \<^verbatim>\<open>=\<close>, \<^verbatim>\<open>!=\<close>, \<^verbatim>\<open>>\<close>, \<^verbatim>\<open><\<close>
  rejects nothing.
\<close>

definition start_filter_ok :: "string \<Rightarrow> pyval \<Rightarrow> pyval \<Rightarrow> py_error + bool" where
  "start_filter_ok operator property_value filter_value =
     (if operator = ''='' then
        (case (property_value, filter_value) of
           (PStr a, PStr b) \<Rightarrow> Inr (py_lower a = py_lower b)
         | _ \<Rightarrow> Inr (py_eq property_value filter_value))
      else if operator = ''!='' then Inr (\<not> py_eq property_value filter_value)
      else if operator = ''>'' then num_compare (\<lambda>x y. x > y) property_value filter_value
      else if operator = ''<'' then num_compare (\<lambda>x y. x < y) property_value filter_value
      else Inr True)"

text \<open>The operator of a simple filter on a path-extended node (lines 1059 to 1071).\<close>

definition path_filter_ok :: "string \<Rightarrow> pyval \<Rightarrow> pyval \<Rightarrow> py_error + bool" where
  "path_filter_ok operator property_value filter_value =
     (if operator = ''='' then Inr (py_eq property_value filter_value)
      else if operator = ''!='' then Inr (\<not> py_eq property_value filter_value)
      else if operator = ''>'' then num_compare (\<lambda>x y. x > y) property_value filter_value
      else if operator = ''<'' then num_compare (\<lambda>x y. x < y) property_value filter_value
      else Inr True)"

text \<open>
  The loop \<^verbatim>\<open>for filter_spec in graph_query.get('filters', [])\<close> for one node, which both
  stages contain with the same text apart from the operator test \<open>ok\<close>: a filter for
  another alias or without operator is skipped, a filter with operator \<^verbatim>\<open>AND\<close> or \<^verbatim>\<open>OR\<close>
  is skipped, a missing property or a failed test ends the loop with \<^verbatim>\<open>matches = False\<close>.
\<close>

fun filters_match ::
  "(string \<Rightarrow> pyval \<Rightarrow> pyval \<Rightarrow> py_error + bool) \<Rightarrow> filter_spec list \<Rightarrow> string \<Rightarrow> node_data
   \<Rightarrow> py_error + bool" where
  "filters_match ok [] alias node = Inr True"
| "filters_match ok (f # fs) alias node =
     (case f_operator f of
        None \<Rightarrow> filters_match ok fs alias node
      | Some operator \<Rightarrow>
          if f_node f \<noteq> Some alias then filters_match ok fs alias node
          else if operator = ''AND'' \<or> operator = ''OR'' then filters_match ok fs alias node
          else
            (case f_property f of
               None \<Rightarrow> Inr False
             | Some property_name \<Rightarrow>
                 (case map_of (properties node) property_name of
                    None \<Rightarrow> Inr False
                  | Some property_value \<Rightarrow>
                      (case ok operator property_value (f_value f) of
                         Inl e \<Rightarrow> Inl e
                       | Inr False \<Rightarrow> Inr False
                       | Inr True \<Rightarrow> filters_match ok fs alias node))))"

text \<open>Keep the nodes that match, in order; the first exception ends everything.\<close>

fun filter_nodes ::
  "(string \<Rightarrow> pyval \<Rightarrow> pyval \<Rightarrow> py_error + bool) \<Rightarrow> filter_spec list \<Rightarrow> string
   \<Rightarrow> (string \<times> node_data) list \<Rightarrow> py_error + (string \<times> node_data) list" where
  "filter_nodes ok fs alias [] = Inr []"
| "filter_nodes ok fs alias ((node_id, node) # rest) =
     (case filters_match ok fs alias node of
        Inl e \<Rightarrow> Inl e
      | Inr m \<Rightarrow>
          (case filter_nodes ok fs alias rest of
             Inl e \<Rightarrow> Inl e
           | Inr kept \<Rightarrow> Inr (if m then (node_id, node) # kept else kept)))"

text \<open>The nodes that carry a label (lines 866 to 870).\<close>

definition nodes_with_label :: "kgraph \<Rightarrow> string \<Rightarrow> (string \<times> node_data) list" where
  "nodes_with_label g label = filter (\<lambda>(node_id, data). label \<in> set (labels data)) (kg_nodes g)"

text \<open>The filtered node set of every start specification (lines 882 to 934).\<close>

fun filter_start_nodes ::
  "filter_spec list \<Rightarrow> (string \<times> (string \<times> node_data) list) list
   \<Rightarrow> py_error + (string \<times> (string \<times> node_data) list) list" where
  "filter_start_nodes fs [] = Inr []"
| "filter_start_nodes fs ((alias, ns) # rest) =
     (case filter_nodes start_filter_ok fs alias ns of
        Inl e \<Rightarrow> Inl e
      | Inr kept \<Rightarrow>
          (case filter_start_nodes fs rest of
             Inl e \<Rightarrow> Inl e
           | Inr sets \<Rightarrow> Inr ((alias, kept) # sets)))"

text \<open>
  \<^verbatim>\<open>if prop_key not in all_properties: all_properties[prop_key] = []\<close> and
  \<^verbatim>\<open>if prop_value not in all_properties[prop_key]: ...append(prop_value)\<close>.
\<close>

definition add_property_value ::
  "(string \<times> pyval list) list \<Rightarrow> string \<Rightarrow> pyval \<Rightarrow> (string \<times> pyval list) list" where
  "add_property_value all_properties prop_key prop_value =
     (let vs = (case map_of all_properties prop_key of None \<Rightarrow> [] | Some vs \<Rightarrow> vs)
      in dict_set all_properties prop_key
           (if list_ex (\<lambda>v. py_eq prop_value v) vs then vs else vs @ [prop_value]))"

text \<open>The properties of one node that the query asks to return under an alias.\<close>

definition returned_of ::
  "return_spec list \<Rightarrow> string \<Rightarrow> node_data \<Rightarrow> (string \<times> pyval) list" where
  "returned_of rps alias node =
     concat (map (\<lambda>prop_spec.
        if rs_node prop_spec = alias
        then (case map_of (properties node) (rs_property prop_spec) of
                None \<Rightarrow> []
              | Some prop_value \<Rightarrow> [(alias @ ''.'' @ rs_property prop_spec, prop_value)])
        else []) rps)"

text \<open>The result of a query without paths (lines 940 to 960).\<close>

definition no_path_properties ::
  "return_spec list \<Rightarrow> (string \<times> (string \<times> node_data) list) list \<Rightarrow> (string \<times> pyval list) list" where
  "no_path_properties rps filtered_start_nodes =
     foldl (\<lambda>all_properties (alias, ns).
        foldl (\<lambda>all_properties (node_id, node).
           foldl (\<lambda>all_properties (k, v). add_property_value all_properties k v)
             all_properties (returned_of rps alias node))
          all_properties ns)
       [] filtered_start_nodes"

text \<open>
  A binding (\<^verbatim>\<open>current_path\<close>) is a dictionary from aliases to pairs (node id, node data)
  that holds the trace of the path under the key \<^verbatim>\<open>path\<close> as well.
\<close>

datatype bval = BNode string node_data | BPath "(string \<times> string) list"

type_synonym binding = "(string \<times> bval) list"

definition initial_paths :: "string \<Rightarrow> (string \<times> node_data) list \<Rightarrow> binding list" where
  "initial_paths alias ns =
     map (\<lambda>(node_id, node).
            dict_set [(alias, BNode node_id node)] ''path'' (BPath [(alias, node_id)])) ns"

text \<open>\<^verbatim>\<open>self.knowledge_graph.nodes[node_id]\<close> for each id of a list.\<close>

fun lookup_nodes :: "kgraph \<Rightarrow> string list \<Rightarrow> py_error + (string \<times> node_data) list" where
  "lookup_nodes g [] = Inr []"
| "lookup_nodes g (node_id # ids) =
     (case map_of (kg_nodes g) node_id of
        None \<Rightarrow> Inl KeyError
      | Some data \<Rightarrow>
          (case lookup_nodes g ids of
             Inl e \<Rightarrow> Inl e
           | Inr ns \<Rightarrow> Inr ((node_id, data) # ns)))"

text \<open>The ids at the far end of the edges of a type that leave, enter or touch a node.\<close>

definition neighbour_ids :: "kgraph \<Rightarrow> string \<Rightarrow> string \<Rightarrow> string \<Rightarrow> string list" where
  "neighbour_ids g direction rel from_node_id =
     (let out = map (\<lambda>(u, v, key). v)
                  (filter (\<lambda>(u, v, key). u = from_node_id \<and> key = rel) (kg_edges g));
          inc = map (\<lambda>(u, v, key). u)
                  (filter (\<lambda>(u, v, key). v = from_node_id \<and> key = rel) (kg_edges g))
      in if direction = ''outgoing'' then out
         else if direction = ''incoming'' then inc
         else out @ inc)"

text \<open>
  The body of the loop \<^verbatim>\<open>for current_path in current_paths\<close> (lines 982 to 1081): the
  bindings that extend one binding along one step.
\<close>

definition extend_path ::
  "kgraph \<Rightarrow> filter_spec list \<Rightarrow> path_spec \<Rightarrow> binding \<Rightarrow> py_error + binding list" where
  "extend_path g fs step current_path =
     (case map_of current_path (from_alias step) of
        None \<Rightarrow> Inr []
      | Some (BPath trace) \<Rightarrow> Inr []
      | Some (BNode from_node_id from_data) \<Rightarrow>
          (case lookup_nodes g (neighbour_ids g (rel_direction step) (rel_type step) from_node_id) of
             Inl e \<Rightarrow> Inl e
           | Inr connected_nodes \<Rightarrow>
               (case filter_nodes path_filter_ok fs (to_alias step)
                       (filter (\<lambda>(node_id, data). to_label step \<in> set (labels data))
                          connected_nodes) of
                  Inl e \<Rightarrow> Inl e
                | Inr filtered_connected_nodes \<Rightarrow>
                    (if filtered_connected_nodes = [] then Inr []
                     else
                       (case map_of current_path ''path'' of
                          None \<Rightarrow> Inl KeyError
                        | Some (BNode i d) \<Rightarrow> Inl TypeError
                        | Some (BPath trace) \<Rightarrow>
                            Inr (map (\<lambda>(node_id, data).
                                   dict_set
                                     (dict_set current_path (to_alias step) (BNode node_id data))
                                     ''path'' (BPath (trace @ [(to_alias step, node_id)])))
                                 filtered_connected_nodes))))))"

text \<open>One path step over all bindings, and all steps in order (lines 974 to 1083).\<close>

fun path_step ::
  "kgraph \<Rightarrow> filter_spec list \<Rightarrow> path_spec \<Rightarrow> binding list \<Rightarrow> py_error + binding list" where
  "path_step g fs step [] = Inr []"
| "path_step g fs step (current_path # rest) =
     (case extend_path g fs step current_path of
        Inl e \<Rightarrow> Inl e
      | Inr new_paths \<Rightarrow>
          (case path_step g fs step rest of
             Inl e \<Rightarrow> Inl e
           | Inr next_paths \<Rightarrow> Inr (new_paths @ next_paths)))"

fun run_paths ::
  "kgraph \<Rightarrow> filter_spec list \<Rightarrow> path_spec list \<Rightarrow> binding list \<Rightarrow> py_error + binding list" where
  "run_paths g fs [] current_paths = Inr current_paths"
| "run_paths g fs (step # steps) current_paths =
     (case path_step g fs step current_paths of
        Inl e \<Rightarrow> Inl e
      | Inr next_paths \<Rightarrow> run_paths g fs steps next_paths)"

record result_path =
  rp_nodes :: "(string \<times> string) list"
  rp_properties :: "(string \<times> pyval) list"

text \<open>The projection of one final binding (lines 1090 to 1124).\<close>

definition project_path :: "return_spec list \<Rightarrow> binding \<Rightarrow> result_path" where
  "project_path rps path =
     \<lparr>rp_nodes = concat (map (\<lambda>(alias, item_value).
          case item_value of
            BNode node_id data \<Rightarrow> if alias \<noteq> ''path'' then [(alias, node_id)] else []
          | BPath trace \<Rightarrow> []) path),
      rp_properties =
        foldl (\<lambda>result_properties (k, v). dict_set result_properties k v) []
          (concat (map (\<lambda>(item_key, item_value).
             if item_key = ''path'' then []
             else (case item_value of
                     BNode node_id data \<Rightarrow> returned_of rps item_key data
                   | BPath trace \<Rightarrow> [])) path))\<rparr>"

text \<open>The values of all result paths, each key with its distinct values (lines 1127 to 1134).\<close>

definition combine_properties :: "result_path list \<Rightarrow> (string \<times> pyval list) list" where
  "combine_properties result_paths =
     foldl (\<lambda>all_properties path.
        foldl (\<lambda>all_properties (k, v). add_property_value all_properties k v)
          all_properties (rp_properties path))
       [] result_paths"

text \<open>
  The dictionary that a query over the graph returns. Its keys \<^verbatim>\<open>nodes\<close> and
  \<^verbatim>\<open>matched_filters\<close> always hold an empty list and an empty dictionary and are left out;
  \<^verbatim>\<open>paths\<close> and \<^verbatim>\<open>error\<close> are present in some results only.
\<close>

record query_result =
  r_properties :: "(string \<times> pyval list) list"
  r_count :: nat
  r_paths :: "result_path list option"
  r_error :: "py_error option"

datatype exec_result = Procedural "(string \<times> string) list" | Results query_result

definition empty_results :: query_result where
  "empty_results = \<lparr>r_properties = [], r_count = 0, r_paths = None, r_error = None\<rparr>"

text \<open>The statements inside \<^verbatim>\<open>try:\<close>; \<open>Inl\<close> is an exception that reaches \<^verbatim>\<open>except\<close>.\<close>

definition execute_body :: "kgraph \<Rightarrow> graph_query \<Rightarrow> py_error + exec_result" where
  "execute_body g q =
     (if is_procedural q then Inr (Procedural (procedural_data q))
      else
        let start = map (\<lambda>sp. (ss_alias sp, nodes_with_label g (ss_label sp))) (start_nodes q)
        in case start of
             [] \<Rightarrow> Inr (Results empty_results)
           | (alias0, []) # others \<Rightarrow> Inr (Results empty_results)
           | first # others \<Rightarrow>
               (case filter_start_nodes (filters q) start of
                  Inl e \<Rightarrow> Inl e
                | Inr filtered_start_nodes \<Rightarrow>
                    let first_alias = fst (hd filtered_start_nodes);
                        first_nodes = snd (hd filtered_start_nodes)
                    in if paths q = []
                       then Inr (Results (empty_results
                              \<lparr>r_properties :=
                                  no_path_properties (return_properties q) filtered_start_nodes,
                               r_count := length first_nodes\<rparr>))
                       else
                         (case run_paths g (filters q) (paths q)
                                 (initial_paths first_alias first_nodes) of
                            Inl e \<Rightarrow> Inl e
                          | Inr [] \<Rightarrow> Inr (Results empty_results)
                          | Inr current_paths \<Rightarrow>
                              let result_paths = map (project_path (return_properties q))
                                                   current_paths
                              in Inr (Results
                                   \<lparr>r_properties = combine_properties result_paths,
                                    r_count = length result_paths,
                                    r_paths = Some result_paths,
                                    r_error = None\<rparr>))))"

text \<open>
  \<^verbatim>\<open>execute_graph_query\<close>: the body, and the handler
  \<^verbatim>\<open>except Exception as e: return {'count': 0, 'properties': {}, 'error': str(e)}\<close>.
\<close>

definition execute_graph_query :: "kgraph \<Rightarrow> graph_query \<Rightarrow> exec_result" where
  "execute_graph_query g q =
     (case execute_body g q of
        Inr r \<Rightarrow> r
      | Inl e \<Rightarrow> Results \<lparr>r_properties = [], r_count = 0, r_paths = None, r_error = Some e\<rparr>)"

section \<open>The knowledge graph of the query processor's test\<close>

text \<open>The graph of the repository's test of the query processor: five nodes, four edges.\<close>

definition policy_node :: node_data where
  "policy_node = \<lparr>labels = [''Policy''],
     properties = [(''policy_number'', PStr ''P1001''), (''effective_date'', PStr ''2023-01-01''),
                   (''expiration_date'', PStr ''2024-01-01''), (''status'', PStr ''active''),
                   (''type'', PStr ''auto'')]\<rparr>"

definition coverage_node :: node_data where
  "coverage_node = \<lparr>labels = [''Coverage''],
     properties = [(''type'', PStr ''liability''), (''limit'', PInt 500000),
                   (''deductible'', PInt 1000)]\<rparr>"

definition test_graph :: kgraph where
  "test_graph =
     \<lparr>kg_nodes =
        [(''pol1'', policy_node),
         (''ins1'', \<lparr>labels = [''Insured''],
            properties = [(''name'', PStr ''John Doe''), (''id_number'', PStr ''U5001''),
                          (''date_of_birth'', PStr ''1980-01-01'')]\<rparr>),
         (''cov1'', coverage_node),
         (''clm1'', \<lparr>labels = [''Claim''],
            properties = [(''claim_number'', PStr ''CL4001''), (''date_of_loss'', PStr ''2023-06-15''),
                          (''status'', PStr ''approved''), (''amount'', PInt 5000)]\<rparr>),
         (''prm1'', \<lparr>labels = [''Premium''],
            properties = [(''amount'', PInt 1200), (''payment_frequency'', PStr ''monthly''),
                          (''due_date'', PStr ''2023-07-01'')]\<rparr>)],
      kg_edges =
        [(''pol1'', ''ins1'', ''INSURES''), (''pol1'', ''cov1'', ''HAS_COVERAGE''),
         (''ins1'', ''clm1'', ''FILES_CLAIM''), (''pol1'', ''prm1'', ''HAS_PREMIUM'')]\<rparr>"

section \<open>Counting bindings\<close>

text \<open>The bindings after the first \<open>k\<close> steps of a path list, from given first bindings.\<close>

definition bindings_after ::
  "kgraph \<Rightarrow> filter_spec list \<Rightarrow> path_spec list \<Rightarrow> binding list \<Rightarrow> nat
   \<Rightarrow> py_error + binding list" where
  "bindings_after g fs steps current_paths k = run_paths g fs (take k steps) current_paths"

text \<open>
  The number of edges of the graph that carry the relationship type of a step, counted
  twice when the step follows edges in both directions.
\<close>

definition edge_bound :: "kgraph \<Rightarrow> path_spec \<Rightarrow> nat" where
  "edge_bound g step =
     (if rel_direction step = ''outgoing'' \<or> rel_direction step = ''incoming'' then 1 else 2)
     * length (filter (\<lambda>(u, v, key). key = rel_type step) (kg_edges g))"

text \<open>One policy with two coverages.\<close>

definition two_coverage_graph :: kgraph where
  "two_coverage_graph =
     \<lparr>kg_nodes =
        [(''pol1'', policy_node), (''cov1'', coverage_node),
         (''cov2'', \<lparr>labels = [''Coverage''],
            properties = [(''type'', PStr ''collision''), (''limit'', PInt 100000)]\<rparr>)],
      kg_edges = [(''pol1'', ''cov1'', ''HAS_COVERAGE''), (''pol1'', ''cov2'', ''HAS_COVERAGE'')]\<rparr>"

section \<open>Notions for the coverage scenario\<close>

text \<open>
  In a \<^verbatim>\<open>MultiDiGraph\<close> both ends of every edge are nodes (\<^verbatim>\<open>add_edge\<close> adds missing
  ones), so that the node lookup of a path step does not fail.
\<close>

definition edges_closed :: "kgraph \<Rightarrow> bool" where
  "edges_closed g =
     list_all (\<lambda>(u, v, key). map_of (kg_nodes g) u \<noteq> None \<and> map_of (kg_nodes g) v \<noteq> None)
       (kg_edges g)"

definition coverage_query :: graph_query where
  "coverage_query =
     build_graph_query ''coverage_inquiry'' (no_params\<lparr>policy_number := Some (PStr ''P1001'')\<rparr>)"

text \<open>
  The test \<^verbatim>\<open>=\<close> of the start stage as a Boolean, and what the filter
  \<open>p.policy_number = P1001\<close> asks of a start node.
\<close>

definition start_eq :: "pyval \<Rightarrow> pyval \<Rightarrow> bool" where
  "start_eq pv fv =
     (case (pv, fv) of (PStr a, PStr b) \<Rightarrow> py_lower a = py_lower b | _ \<Rightarrow> py_eq pv fv)"

definition policy_matches :: "node_data \<Rightarrow> bool" where
  "policy_matches node =
     (case map_of (properties node) ''policy_number'' of
        None \<Rightarrow> False
      | Some pv \<Rightarrow> start_eq pv (PStr ''P1001''))"

text \<open>The bindings that the step from \<open>p\<close> to \<open>c\<close> makes of the binding of one policy.\<close>

definition coverage_bindings :: "kgraph \<Rightarrow> string \<times> node_data \<Rightarrow> binding list" where
  "coverage_bindings g pn =
     map (\<lambda>(j, dj). [(''p'', BNode (fst pn) (snd pn)),
                      (''path'', BPath [(''p'', fst pn), (''c'', j)]),
                      (''c'', BNode j dj)])
       (filter (\<lambda>(j, dj). ''Coverage'' \<in> set (labels dj))
          (map (\<lambda>j. (j, the (map_of (kg_nodes g) j)))
             (neighbour_ids g ''outgoing'' ''HAS_COVERAGE'' (fst pn))))"

text \<open>Under key \<open>k\<close> the aggregated properties hold a list with the string \<open>s\<close> in it.\<close>

definition has_str :: "(string \<times> pyval list) list \<Rightarrow> string \<Rightarrow> string \<Rightarrow> bool" where
  "has_str all_properties k s = (\<exists>vs. map_of all_properties k = Some vs \<and> PStr s \<in> set vs)"

section \<open>Evaluation of the string functions\<close>

text \<open>
  \<open>lower_char\<close> on the bits of a character: the code points \<open>0x41\<close> to \<open>0x5A\<close> get bit 5
  set. The equation is used when a concrete text is evaluated.
\<close>

lemma lower_char_bits [code]:
  "lower_char (Char b0 b1 b2 b3 b4 b5 b6 b7) =
     (if \<not> b7 \<and> b6 \<and> \<not> b5 \<and> (b0 \<or> b1 \<or> b2 \<or> b3 \<or> b4) \<and> \<not> (b4 \<and> b3 \<and> (b2 \<or> (b1 \<and> b0)))
      then Char b0 b1 b2 b3 b4 True b6 b7 else Char b0 b1 b2 b3 b4 b5 b6 b7)"
  by (cases b0; cases b1; cases b2; cases b3; cases b4; cases b5; cases b6; cases b7;
      simp add: lower_char_def char_of_def bit_0)

lemma py_lower_example: "py_lower ''P1001 aZ'' = ''p1001 az''"
  by code_simp

section \<open>Properties of the query history\<close>

lemma update_query_history_max:
  "max_history_length (update_query_history s q) = max_history_length s"
  by (simp add: update_query_history_def Let_def)

lemma update_query_history_drop:
  "0 < max_history_length s \<Longrightarrow>
   query_history (update_query_history s q) =
     drop (length (query_history s @ [q]) - max_history_length s) (query_history s @ [q])"
  by (simp add: update_query_history_def py_last_slice_def Let_def)

text \<open>
  Claim C10. With the bound set by the constructor (10), after every call of
  \<^verbatim>\<open>update_query_history\<close> the history holds at most 10 entries; it is the old history with
  the new entry appended when that fits, and otherwise exactly the 10 most recent entries
  of it (the oldest are dropped).
\<close>

theorem query_history_bounded:
  assumes "max_history_length s = 10"
  shows "length (query_history (update_query_history s q)) \<le> 10
       \<and> (length (query_history s @ [q]) \<le> 10 \<longrightarrow>
            query_history (update_query_history s q) = query_history s @ [q])
       \<and> (length (query_history s @ [q]) > 10 \<longrightarrow>
            length (query_history (update_query_history s q)) = 10
          \<and> query_history (update_query_history s q) =
              drop (length (query_history s @ [q]) - 10) (query_history s @ [q]))"
  using assms by (auto simp: update_query_history_def py_last_slice_def Let_def)

theorem query_history_bounded_witness:
  "max_history_length (\<lparr>query_history = [1, 2, 3, 4, 5, 6, 7, 8, 9, 10 :: nat],
                         max_history_length = 10\<rparr>) = 10
   \<and> query_history (update_query_history
        \<lparr>query_history = [1, 2, 3, 4, 5, 6, 7, 8, 9, 10 :: nat], max_history_length = 10\<rparr> 11)
      = [2, 3, 4, 5, 6, 7, 8, 9, 10, 11]"
  using query_history_bounded
    [of "\<lparr>query_history = [1, 2, 3, 4, 5, 6, 7, 8, 9, 10 :: nat], max_history_length = 10\<rparr>" 11]
  by simp

text \<open>
  The same over a whole session: starting from the constructor's state, after any sequence
  of calls the history is the last 10 entries of that sequence.
\<close>

lemma drop_tail_step:
  fixes A :: "'a list"
  assumes "0 < m"
  shows "drop (length (drop (length A - m) A @ [q]) - m) (drop (length A - m) A @ [q])
       = drop (length (A @ [q]) - m) (A @ [q])"
proof (cases "length A < m")
  case True
  then show ?thesis by simp
next
  case False
  define k where "k = length A - m"
  have kl: "k < length A" "Suc k \<le> length A" using False assms by (simp_all add: k_def)
  have a: "length (drop k A @ [q]) - m = Suc 0" using False assms by (simp add: k_def)
  have b: "length (A @ [q]) - m = Suc k" using False by (simp add: k_def)
  have l: "drop (Suc 0) (drop k A @ [q]) = drop (Suc k) A @ [q]"
    using kl by (simp add: drop_append)
  have r: "drop (Suc k) (A @ [q]) = drop (Suc k) A @ [q]"
    using kl by (simp add: drop_append)
  show ?thesis unfolding k_def [symmetric] a b l r ..
qed

lemma foldl_update_max:
  "max_history_length (foldl update_query_history s qs) = max_history_length s"
  by (induction qs rule: rev_induct) (simp_all add: update_query_history_max)

lemma history_after_calls_gen:
  assumes "0 < max_history_length s" and "query_history s = []"
  shows "query_history (foldl update_query_history s qs) =
     drop (length qs - max_history_length s) qs"
proof (induction qs rule: rev_induct)
  case Nil
  then show ?case by (simp add: assms)
next
  case (snoc q qs)
  let ?t = "foldl update_query_history s qs"
  have m: "max_history_length ?t = max_history_length s"
    by (rule foldl_update_max)
  have "query_history (update_query_history ?t q) =
      drop (length (query_history ?t @ [q]) - max_history_length s) (query_history ?t @ [q])"
    using update_query_history_drop [of ?t q] assms(1) m by simp
  also have "\<dots> = drop (length (qs @ [q]) - max_history_length s) (qs @ [q])"
    unfolding snoc.IH using assms(1) by (rule drop_tail_step)
  finally show ?case by simp
qed

lemma history_after_calls:
  "query_history (foldl update_query_history init_processor qs) = drop (length qs - 10) qs"
  using history_after_calls_gen [of init_processor qs] by (simp add: init_processor_def)

section \<open>Properties of the schema graph\<close>

lemma get_entity_types_cong:
  "schema_graph s = schema_graph t \<Longrightarrow> get_entity_types s = get_entity_types t"
  by (simp add: get_entity_types_def)

lemma get_relationship_types_cong:
  "schema_graph s = schema_graph t \<Longrightarrow> get_relationship_types s = get_relationship_types t"
  by (simp add: get_relationship_types_def)

lemma scores_formula_cong:
  "schema_graph s = schema_graph t \<Longrightarrow> quality_scores s = quality_scores t \<Longrightarrow>
   scores_formula s = scores_formula t"
  by (simp add: scores_formula_def get_entity_types_cong [of s t]
      get_relationship_types_cong [of s t])

lemma calculate_quality_scores_graph:
  "schema_graph (calculate_quality_scores s) = schema_graph s"
  by (simp add: calculate_quality_scores_def Let_def)

lemma scores_formula_calculate: "scores_formula (calculate_quality_scores s)"
proof -
  have e: "get_entity_types (calculate_quality_scores s) = get_entity_types s"
    by (rule get_entity_types_cong) (rule calculate_quality_scores_graph)
  have r: "get_relationship_types (calculate_quality_scores s) = get_relationship_types s"
    by (rule get_relationship_types_cong) (rule calculate_quality_scores_graph)
  show ?thesis
    unfolding scores_formula_def e r by (simp add: calculate_quality_scores_def Let_def)
qed

lemma scores_formula_update: "scores_formula (update_schema_metrics s)"
  unfolding update_schema_metrics_def Let_def by (rule scores_formula_calculate)

lemma scores_formula_record:
  "scores_formula (record_schema_version now s d) = scores_formula s"
  by (rule scores_formula_cong) (simp_all add: record_schema_version_def Let_def)

lemma scores_formula_add_entity_type:
  "fst (add_entity_type now s name props cons) \<Longrightarrow>
   scores_formula (snd (add_entity_type now s name props cons))"
  by (simp add: add_entity_type_def Let_def scores_formula_record scores_formula_update
      split: if_splits)

lemma scores_formula_add_relationship_type:
  "fst (add_relationship_type now s name src tgt props cons) \<Longrightarrow>
   scores_formula (snd (add_relationship_type now s name src tgt props cons))"
  by (simp add: add_relationship_type_def Let_def scores_formula_record scores_formula_update
      split: if_splits)

lemma scores_formula_evolve_schema:
  "evolve_schema now s d threshold = (Inr changes, s') \<Longrightarrow> scores_formula s'"
  by (auto simp: evolve_schema_def Let_def scores_formula_update split: sum.splits)

text \<open>
  Claim C8. Whenever the quality scores are recomputed (\<^verbatim>\<open>_calculate_quality_scores\<close>, which
  \<^verbatim>\<open>_update_schema_metrics\<close> calls), and so after every successful \<^verbatim>\<open>add_entity_type\<close>,
  every successful \<^verbatim>\<open>add_relationship_type\<close> and every \<^verbatim>\<open>evolve_schema\<close> that returns,
  \<open>coverage = min(1, (entityCount/15 + relationshipCount/25)/2)\<close> for the numbers of entity
  types and relationship types of the new state, and \<open>overall\<close> is the arithmetic mean of
  coverage, consistency and connectivity. (Python floats are read as exact rationals.)
\<close>

theorem quality_scores_recomputed:
  "scores_formula (calculate_quality_scores s)
   \<and> scores_formula (update_schema_metrics s)
   \<and> (fst (add_entity_type now s name props cons) \<longrightarrow>
        scores_formula (snd (add_entity_type now s name props cons)))
   \<and> (fst (add_relationship_type now s name src tgt props cons) \<longrightarrow>
        scores_formula (snd (add_relationship_type now s name src tgt props cons)))
   \<and> (\<forall>changes s'. evolve_schema now s d threshold = (Inr changes, s') \<longrightarrow> scores_formula s')"
  using scores_formula_calculate scores_formula_update scores_formula_add_entity_type
    scores_formula_add_relationship_type scores_formula_evolve_schema
  by blast

lemma has_coverage_schema_added:
  "fst (add_relationship_type ''t3'' policy_coverage_schema
          ''HAS_COVERAGE'' ''Policy'' ''Coverage'' [] [])"
  by code_simp

lemma has_coverage_schema_scores:
  "quality_scores has_coverage_schema =
     \<lparr>coverage = 13 / 150, consistency = 0, connectivity = 1 / 2, overall = Some (44 / 225)\<rparr>"
  by code_simp

theorem quality_scores_recomputed_witness:
  "fst (add_relationship_type ''t3'' policy_coverage_schema
          ''HAS_COVERAGE'' ''Policy'' ''Coverage'' [] [])
   \<and> scores_formula has_coverage_schema
   \<and> coverage (quality_scores has_coverage_schema) = 13 / 150
   \<and> overall (quality_scores has_coverage_schema) = Some ((13 / 150 + 0 + 1 / 2) / 3)"
  using quality_scores_recomputed [of policy_coverage_schema "''t3''" "''HAS_COVERAGE''" "[]" "[]"
      "''Policy''" "''Coverage''"]
    has_coverage_schema_added has_coverage_schema_scores
  by (simp add: has_coverage_schema_def)

text \<open>
  Claim C2 (the code departs from it). In \<open>has_coverage_schema\<close> the entity types
  \<open>Policy\<close> and \<open>Coverage\<close> exist and no relationship type \<open>(EXCLUDES, Policy, Coverage)\<close>
  is present. \<^verbatim>\<open>add_relationship_type('EXCLUDES', 'Policy', 'Coverage')\<close> returns
  \<open>True\<close>, but the schema graph is a \<^verbatim>\<open>DiGraph\<close>, so the new edge overwrites the one
  edge from \<open>Policy\<close> to \<open>Coverage\<close>: afterwards \<^verbatim>\<open>get_relationship_types()\<close> holds the new
  triple only, and the triple \<open>(HAS_COVERAGE, Policy, Coverage)\<close> that was present before the
  call is gone.
\<close>

theorem add_relationship_type_displaces:
  "set [''Policy'', ''Coverage''] \<subseteq> set (get_entity_types has_coverage_schema)
   \<and> relationship_triples has_coverage_schema = [(''HAS_COVERAGE'', ''Policy'', ''Coverage'')]
   \<and> fst (add_relationship_type ''t4'' has_coverage_schema
             ''EXCLUDES'' ''Policy'' ''Coverage'' [] [])
   \<and> relationship_triples (snd (add_relationship_type ''t4'' has_coverage_schema
             ''EXCLUDES'' ''Policy'' ''Coverage'' [] []))
      = [(''EXCLUDES'', ''Policy'', ''Coverage'')]"
  by code_simp

text \<open>
  What does hold: a relationship type between a pair of entity types that no edge joins yet
  is added next to the ones that are there.
\<close>

lemma add_relationship_type_other_pair:
  "fst (add_relationship_type ''t4'' has_coverage_schema
          ''COVERED_BY'' ''Coverage'' ''Policy'' [] [])
   \<and> set (relationship_triples (snd (add_relationship_type ''t4'' has_coverage_schema
          ''COVERED_BY'' ''Coverage'' ''Policy'' [] [])))
      = {(''HAS_COVERAGE'', ''Policy'', ''Coverage''), (''COVERED_BY'', ''Coverage'', ''Policy'')}"
  by code_simp

section \<open>Properties of the analysis of instance data\<close>

text \<open>The analysis leaves the whole state as it is, whether it returns or raises.\<close>

lemma analyze_instance_data_frame: "snd (analyze_instance_data s d) = s"
  by (simp add: analyze_instance_data_def Let_def split: sum.splits)

text \<open>A key that splits into three parts is accepted; any other key raises.\<close>

lemma propose_relationship_raises:
  "length (py_split CHR '':'' (fst kd)) \<noteq> 3 \<Longrightarrow>
   propose_relationship existing recs kd = Inl ValueError"
  by (auto simp: propose_relationship_def Let_def split: list.splits)

text \<open>
  Claim C9 (the code departs from it). The state is never changed, but the call does not
  always return recommendations: the relationship key \<open>OWNS:X:Person:Car\<close> splits into
  four parts at the colons, the unpacking into three names raises \<^verbatim>\<open>ValueError\<close>, and
  the exception leaves \<^verbatim>\<open>analyze_instance_data\<close>.
\<close>

theorem analyze_instance_data_raises:
  "fst (analyze_instance_data person_schema colon_batch) = Inl ValueError
   \<and> snd (analyze_instance_data person_schema colon_batch) = person_schema"
proof
  show "fst (analyze_instance_data person_schema colon_batch) = Inl ValueError"
    by code_simp
  show "snd (analyze_instance_data person_schema colon_batch) = person_schema"
    by (rule analyze_instance_data_frame)
qed

text \<open>The same batch with the plain type \<open>OWNS\<close> is analysed without an exception.\<close>

lemma analyze_instance_data_returns:
  "map rr_name (case fst (analyze_instance_data person_schema
       (colon_batch\<lparr>edges_of := [\<lparr>ie_source = ''p1'', ie_target = ''c1'', ie_type = ''OWNS'',
                                   ie_properties = []\<rparr>]\<rparr>)) of
     Inr recs \<Rightarrow> new_relationship_types recs | Inl e \<Rightarrow> []) = [''OWNS'']"
  by code_simp

section \<open>Properties of the intent analysis\<close>

text \<open>
  None of the 24 patterns matches the text \<^verbatim>\<open>What is the status of claim CL4001?\<close>: the
  first pattern of \<open>claim_status\<close> asks for \<^verbatim>\<open>my\<close>, \<^verbatim>\<open>the\<close> or \<^verbatim>\<open>a\<close> between
  \<^verbatim>\<open>status of\<close> and \<^verbatim>\<open>claim\<close>. The text of the repository's own test,
  \<^verbatim>\<open>What's the status of my claim CL4001?\<close>, matches that pattern and no other.
\<close>

lemma no_pattern_matches:
  "pattern_matches intent_patterns ''What is the status of claim CL4001?'' = []"
  by code_simp

lemma test_text_pattern_matches:
  "pattern_matches intent_patterns (''What'' @ [CHR 0x27] @ ''s the status of my claim CL4001?'')
     = [(''claim_status'', 1)]"
  by code_simp

lemma pattern_examples:
  "pattern_matches intent_patterns ''What does my policy cover?'' = [(''coverage_inquiry'', 1)]"
  "pattern_matches intent_patterns ''I want to start a claim'' = [(''filing_claim'', 1)]"
  by code_simp+

text \<open>
  Claim C5 as stated fails: with similarities that put \<open>claim_status\<close> first, the text is
  classified as \<open>claim_status\<close>, but by the embedding and not by a pattern.
\<close>

theorem analyze_intent_claim_text_counterexample:
  "pattern_matches intent_patterns ''What is the status of claim CL4001?'' = []
   \<and> analyze_intent [(''policy_details'', 1 / 2), (''coverage_inquiry'', 2 / 5),
        (''claim_status'', 17 / 20), (''premium_information'', 3 / 10), (''filing_claim'', 3 / 5)]
        ''What is the status of claim CL4001?''
      = \<lparr>ir_intent = ''claim_status'', ir_confidence = 17 / 20, ir_method = ''embedding''\<rparr>
   \<and> ''embedding'' \<noteq> ''pattern''"
  by (simp add: analyze_intent_def no_pattern_matches)

text \<open>
  Claim C5, amended. For the text \<^verbatim>\<open>What is the status of claim CL4001?\<close> no configured
  pattern matches, so whatever the similarities are the method of the result is never
  \<open>pattern\<close> (it is \<open>embedding\<close> or \<open>default\<close>). The text
  \<^verbatim>\<open>What's the status of my claim CL4001?\<close> is classified by pattern as \<open>claim_status\<close>
  with confidence \<open>0.8\<close>, which lies in \<open>[0.7, 0.9]\<close>.
\<close>

theorem analyze_intent_claim_status:
  "ir_method (analyze_intent similarities ''What is the status of claim CL4001?'') \<noteq> ''pattern''
   \<and> ir_method (analyze_intent similarities ''What is the status of claim CL4001?'')
       \<in> {''embedding'', ''default''}
   \<and> analyze_intent similarities (''What'' @ [CHR 0x27] @ ''s the status of my claim CL4001?'')
       = \<lparr>ir_intent = ''claim_status'', ir_confidence = 4 / 5, ir_method = ''pattern''\<rparr>
   \<and> (7 / 10 :: rat) \<le> 4 / 5 \<and> (4 / 5 :: rat) \<le> 9 / 10"
proof -
  let ?r = "analyze_intent similarities ''What is the status of claim CL4001?''"
  have m: "ir_method ?r \<in> {''embedding'', ''default''}"
    by (simp add: analyze_intent_def no_pattern_matches Let_def split: list.splits)
  then have "ir_method ?r \<noteq> ''pattern''" by auto
  moreover have "analyze_intent similarities
      (''What'' @ [CHR 0x27] @ ''s the status of my claim CL4001?'')
      = \<lparr>ir_intent = ''claim_status'', ir_confidence = 4 / 5, ir_method = ''pattern''\<rparr>"
    unfolding analyze_intent_def test_text_pattern_matches by simp
  ultimately show ?thesis using m by simp
qed

section \<open>Properties of the query executor\<close>

text \<open>
  Claim C1 (the code departs from it). The query that \<^verbatim>\<open>build_graph_query\<close> builds for
  \<open>coverage_inquiry\<close> with the coverage type \<open>collision\<close> carries the compound filter
  \<open>OR [c.type = collision]\<close>. The only coverage of policy \<open>P1001\<close> has type \<open>liability\<close>,
  so no condition of the filter matches it; yet the path step binds it to \<open>c\<close> and the
  result counts it: the loop over the filters skips every filter whose operator is
  \<^verbatim>\<open>AND\<close> or \<^verbatim>\<open>OR\<close> (``handle compound filters later''), and nothing handles them later.
\<close>

theorem compound_filter_not_applied:
  "filters (build_graph_query ''coverage_inquiry''
      (no_params\<lparr>policy_number := Some (PStr ''P1001''),
                 coverage_types := Some [PStr ''collision'']\<rparr>))
     = [simple_filter ''p'' ''policy_number'' (PStr ''P1001''),
        Filter None None (Some ''OR'') PNone [simple_filter ''c'' ''type'' (PStr ''collision'')]]
   \<and> filters_match path_filter_ok [simple_filter ''c'' ''type'' (PStr ''collision'')] ''c''
       coverage_node = Inr False
   \<and> (case execute_graph_query test_graph
         (build_graph_query ''coverage_inquiry''
            (no_params\<lparr>policy_number := Some (PStr ''P1001''),
                       coverage_types := Some [PStr ''collision'']\<rparr>)) of
        Results r \<Rightarrow> r_count r = 1 \<and> map_of (r_properties r) ''c.type'' = Some [PStr ''liability'']
                    \<and> r_error r = None
      | Procedural d \<Rightarrow> False)"
  by code_simp

text \<open>
  The two stages on a filter \<^verbatim>\<open>=\<close> whose value differs from the property in letter case
  only, run through the executor: the start stage keeps the policy \<open>P1001\<close> for the value
  \<open>p1001\<close>; the path stage drops the coverage \<open>liability\<close> for the value \<open>LIABILITY\<close>.
\<close>

lemma case_asymmetry_example:
  "(case execute_graph_query test_graph
         (empty_query\<lparr>start_nodes := [\<lparr>ss_label = ''Policy'', ss_alias = ''p''\<rparr>],
                      filters := [simple_filter ''p'' ''policy_number'' (PStr ''p1001'')]\<rparr>) of
      Results r \<Rightarrow> r_count r = 1 | Procedural d \<Rightarrow> False)
   \<and> (case execute_graph_query test_graph
         (empty_query\<lparr>start_nodes := [\<lparr>ss_label = ''Policy'', ss_alias = ''p''\<rparr>],
                      paths := [step_out ''p'' ''Policy'' ''HAS_COVERAGE'' ''c'' ''Coverage''],
                      filters := [simple_filter ''c'' ''type'' (PStr ''LIABILITY'')]\<rparr>) of
      Results r \<Rightarrow> r_count r = 0 | Procedural d \<Rightarrow> False)"
  by code_simp

lemma filters_match_single:
  "filters_match ok [simple_filter alias p v] alias node =
     (case map_of (properties node) p of
        None \<Rightarrow> Inr False
      | Some pv \<Rightarrow> ok ''='' pv v)"
  by (auto simp: simple_filter_def split: option.splits sum.splits bool.splits)

text \<open>
  Claim C3. For a simple filter \<^verbatim>\<open>=\<close> on a string property with a string value: a start
  node whose property has the same lower-case form as the value is kept, a path-extended
  node whose property is not the very same string is rejected; so a difference in letter
  case alone is accepted at the start stage and rejected at the path stage. For every
  other operator, and for \<^verbatim>\<open>=\<close> when the property or the value is not a string, the two
  stages decide alike.
\<close>

theorem string_equality_case_asymmetry:
  "(py_lower a = py_lower b \<longrightarrow>
      start_filter_ok ''='' (PStr a) (PStr b) = Inr True)
   \<and> (a \<noteq> b \<longrightarrow> path_filter_ok ''='' (PStr a) (PStr b) = Inr False)
   \<and> (map_of (properties node) p = Some (PStr a) \<and> py_lower a = py_lower b \<and> a \<noteq> b \<longrightarrow>
        filters_match start_filter_ok [simple_filter nd p (PStr b)] nd node = Inr True
      \<and> filters_match path_filter_ok [simple_filter nd p (PStr b)] nd node = Inr False)
   \<and> (\<not> (operator = ''='' \<and> (\<exists>x. pv = PStr x) \<and> (\<exists>y. fv = PStr y)) \<longrightarrow>
        start_filter_ok operator pv fv = path_filter_ok operator pv fv)"
proof (intro conjI impI)
  show "start_filter_ok ''='' (PStr a) (PStr b) = Inr True" if "py_lower a = py_lower b"
    using that by (simp add: start_filter_ok_def)
  show "path_filter_ok ''='' (PStr a) (PStr b) = Inr False" if "a \<noteq> b"
    using that by (simp add: path_filter_ok_def)
  show "filters_match start_filter_ok [simple_filter nd p (PStr b)] nd node = Inr True"
    if "map_of (properties node) p = Some (PStr a) \<and> py_lower a = py_lower b \<and> a \<noteq> b"
    using that by (simp add: filters_match_single start_filter_ok_def del: filters_match.simps)
  show "filters_match path_filter_ok [simple_filter nd p (PStr b)] nd node = Inr False"
    if "map_of (properties node) p = Some (PStr a) \<and> py_lower a = py_lower b \<and> a \<noteq> b"
    using that by (simp add: filters_match_single path_filter_ok_def del: filters_match.simps)
  show "start_filter_ok operator pv fv = path_filter_ok operator pv fv"
    if "\<not> (operator = ''='' \<and> (\<exists>x. pv = PStr x) \<and> (\<exists>y. fv = PStr y))"
    using that
    by (cases pv; cases fv) (auto simp: start_filter_ok_def path_filter_ok_def)
qed

lemma lower_P1001: "py_lower ''p1001'' = py_lower ''P1001''"
  by code_simp

theorem string_equality_case_asymmetry_witness:
  "filters_match start_filter_ok [simple_filter ''p'' ''policy_number'' (PStr ''p1001'')] ''p''
      policy_node = Inr True
   \<and> filters_match path_filter_ok [simple_filter ''p'' ''policy_number'' (PStr ''p1001'')] ''p''
      policy_node = Inr False
   \<and> start_filter_ok ''>'' (PInt 5) (PInt 3) = path_filter_ok ''>'' (PInt 5) (PInt 3)"
  using string_equality_case_asymmetry
    [where a = "''P1001''" and b = "''p1001''" and node = policy_node
       and p = "''policy_number''" and nd = "''p''" and operator = "''>''"
       and pv = "PInt 5" and fv = "PInt 3"]
    lower_P1001
  by (simp add: policy_node_def)

lemma type_error_example:
  "execute_graph_query test_graph
     (empty_query\<lparr>start_nodes := [\<lparr>ss_label = ''Coverage'', ss_alias = ''c''\<rparr>],
                  filters := [Filter (Some ''c'') (Some ''limit'') (Some ''>'') (PStr ''high'') []]\<rparr>)
   = Results \<lparr>r_properties = [], r_count = 0, r_paths = None, r_error = Some TypeError\<rparr>"
  by code_simp

text \<open>
  Claim C7. \<^verbatim>\<open>execute_graph_query\<close> returns a result for every graph and every query:
  the result of its body when the body raises no exception, and otherwise a result with
  count 0, no properties and the exception in its \<^verbatim>\<open>error\<close> field.
\<close>

theorem execute_graph_query_never_raises:
  "(\<exists>r. execute_body g q = Inr r \<and> execute_graph_query g q = r)
   \<or> (\<exists>e r. execute_body g q = Inl e \<and> execute_graph_query g q = Results r
        \<and> r_count r = 0 \<and> r_properties r = [] \<and> r_error r = Some e)"
  by (cases "execute_body g q") (simp_all add: execute_graph_query_def)

theorem execute_graph_query_never_raises_witness:
  "execute_body test_graph
     (empty_query\<lparr>start_nodes := [\<lparr>ss_label = ''Coverage'', ss_alias = ''c''\<rparr>],
                  filters := [Filter (Some ''c'') (Some ''limit'') (Some ''>'') (PStr ''high'') []]\<rparr>)
     = Inl TypeError
   \<and> (\<exists>r. execute_graph_query test_graph
     (empty_query\<lparr>start_nodes := [\<lparr>ss_label = ''Coverage'', ss_alias = ''c''\<rparr>],
                  filters := [Filter (Some ''c'') (Some ''limit'') (Some ''>'') (PStr ''high'') []]\<rparr>)
      = Results r \<and> r_count r = 0 \<and> r_properties r = [] \<and> r_error r = Some TypeError)"
proof -
  let ?q = "empty_query\<lparr>start_nodes := [\<lparr>ss_label = ''Coverage'', ss_alias = ''c''\<rparr>],
      filters := [Filter (Some ''c'') (Some ''limit'') (Some ''>'') (PStr ''high'') []]\<rparr>"
  have b: "execute_body test_graph ?q = Inl TypeError"
    by code_simp
  show ?thesis
    using execute_graph_query_never_raises [of test_graph ?q] b by auto
qed

section \<open>The number of bindings along the path steps\<close>

lemma length_filter_conj: "length (filter (\<lambda>x. P x \<and> Q x) xs) \<le> length (filter Q xs)"
  by (induction xs) auto

lemma neighbour_ids_length:
  "length (neighbour_ids g (rel_direction step) (rel_type step) n) \<le> edge_bound g step"
proof -
  let ?k = "length (filter (\<lambda>(u, v, key). key = rel_type step) (kg_edges g))"
  have o: "length (filter (\<lambda>(u, v, key). u = n \<and> key = rel_type step) (kg_edges g)) \<le> ?k"
    using length_filter_conj [of "\<lambda>(u, v, key). u = n" "\<lambda>(u, v, key). key = rel_type step"
        "kg_edges g"]
    by (simp add: case_prod_unfold)
  have i: "length (filter (\<lambda>(u, v, key). v = n \<and> key = rel_type step) (kg_edges g)) \<le> ?k"
    using length_filter_conj [of "\<lambda>(u, v, key). v = n" "\<lambda>(u, v, key). key = rel_type step"
        "kg_edges g"]
    by (simp add: case_prod_unfold)
  show ?thesis
    using o i by (simp add: neighbour_ids_def edge_bound_def Let_def)
qed

lemma lookup_nodes_length: "lookup_nodes g ids = Inr ns \<Longrightarrow> length ns = length ids"
  by (induction ids arbitrary: ns) (auto split: option.splits sum.splits)

lemma filter_nodes_length: "filter_nodes ok fs a ns = Inr kept \<Longrightarrow> length kept \<le> length ns"
proof (induction ns arbitrary: kept)
  case Nil
  then show ?case by simp
next
  case (Cons n ns)
  obtain i d where n: "n = (i, d)" by (cases n)
  from Cons.prems obtain m rest where
    r: "filter_nodes ok fs a ns = Inr rest" and k: "kept = (if m then (i, d) # rest else rest)"
    by (auto simp: n split: sum.splits)
  from Cons.IH [OF r] show ?case by (simp add: k)
qed

lemma extend_path_length:
  assumes "extend_path g fs step b = Inr new"
  shows "length new \<le> edge_bound g step"
proof (cases "map_of b (from_alias step)")
  case None
  with assms show ?thesis by (simp add: extend_path_def)
next
  case (Some bv)
  show ?thesis
  proof (cases bv)
    case (BPath trace)
    with Some assms show ?thesis by (simp add: extend_path_def)
  next
    case (BNode i d)
    let ?ids = "neighbour_ids g (rel_direction step) (rel_type step) i"
    from assms Some BNode obtain connected kept where
      c: "lookup_nodes g ?ids = Inr connected" and
      f: "filter_nodes path_filter_ok fs (to_alias step)
            (filter (\<lambda>(node_id, data). to_label step \<in> set (labels data)) connected) = Inr kept"
      and n: "length new \<le> length kept"
      by (auto simp: extend_path_def split: sum.splits option.splits bval.splits if_splits)
    have "length kept \<le> length connected"
      using filter_nodes_length [OF f] length_filter_le [of _ connected] by (meson le_trans)
    also have "\<dots> = length ?ids" by (rule lookup_nodes_length [OF c])
    also have "\<dots> \<le> edge_bound g step" by (rule neighbour_ids_length)
    finally show ?thesis using n by simp
  qed
qed

lemma path_step_length:
  "path_step g fs step cur = Inr nxt \<Longrightarrow> length nxt \<le> length cur * edge_bound g step"
proof (induction cur arbitrary: nxt)
  case Nil
  then show ?case by simp
next
  case (Cons b cur)
  from Cons.prems obtain new rest where
    e: "extend_path g fs step b = Inr new" and r: "path_step g fs step cur = Inr rest"
    and n: "nxt = new @ rest"
    by (auto split: sum.splits)
  from extend_path_length [OF e] Cons.IH [OF r] show ?case by (simp add: n)
qed

lemma run_paths_append:
  "run_paths g fs (xs @ ys) cur =
     (case run_paths g fs xs cur of Inl e \<Rightarrow> Inl e | Inr mid \<Rightarrow> run_paths g fs ys mid)"
  by (induction xs arbitrary: cur) (auto split: sum.splits)

lemma bindings_after_Suc:
  "k < length steps \<Longrightarrow>
   bindings_after g fs steps cur (Suc k) =
     (case bindings_after g fs steps cur k of
        Inl e \<Rightarrow> Inl e
      | Inr mid \<Rightarrow> path_step g fs (steps ! k) mid)"
  by (simp add: bindings_after_def take_Suc_conv_app_nth run_paths_append split: sum.splits)

text \<open>
  Claim C4 as stated fails: in \<open>two_coverage_graph\<close> the one binding of the policy before
  the step to its coverages becomes two bindings after it.
\<close>

theorem binding_count_grows:
  "map_sum id length
     (bindings_after two_coverage_graph []
        [step_out ''p'' ''Policy'' ''HAS_COVERAGE'' ''c'' ''Coverage'']
        (initial_paths ''p'' [(''pol1'', policy_node)]) 0) = Inr 1
   \<and> map_sum id length
     (bindings_after two_coverage_graph []
        [step_out ''p'' ''Policy'' ''HAS_COVERAGE'' ''c'' ''Coverage'']
        (initial_paths ''p'' [(''pol1'', policy_node)]) 1) = Inr 2
   \<and> \<not> (2 :: nat) \<le> 1"
  by code_simp

text \<open>
  Claim C4, amended. The number of bindings after step \<open>k + 1\<close> is at most the number after
  step \<open>k\<close> times the number of edges that carry the relationship type of that step (twice
  that number for a step in both directions); so once no binding is left, none comes back.
  The number can grow from one step to the next.
\<close>

theorem binding_count_bound:
  assumes "k < length steps"
    and "bindings_after g fs steps cur k = Inr bk"
    and "bindings_after g fs steps cur (Suc k) = Inr bk1"
  shows "length bk1 \<le> length bk * edge_bound g (steps ! k) \<and> (bk = [] \<longrightarrow> bk1 = [])"
proof -
  have s: "path_step g fs (steps ! k) bk = Inr bk1"
    using assms by (simp add: bindings_after_Suc)
  have "length bk1 \<le> length bk * edge_bound g (steps ! k)"
    by (rule path_step_length [OF s])
  then show ?thesis by auto
qed

lemma two_coverage_steps:
  "bindings_after two_coverage_graph []
     [step_out ''p'' ''Policy'' ''HAS_COVERAGE'' ''c'' ''Coverage'']
     (initial_paths ''p'' [(''pol1'', policy_node)]) 0
   = Inr (initial_paths ''p'' [(''pol1'', policy_node)])"
  "map_sum id length (bindings_after two_coverage_graph []
     [step_out ''p'' ''Policy'' ''HAS_COVERAGE'' ''c'' ''Coverage'']
     (initial_paths ''p'' [(''pol1'', policy_node)]) (Suc 0)) = Inr 2"
  "edge_bound two_coverage_graph (step_out ''p'' ''Policy'' ''HAS_COVERAGE'' ''c'' ''Coverage'') = 2"
  by code_simp+

theorem binding_count_bound_witness:
  "(0 :: nat) < length [step_out ''p'' ''Policy'' ''HAS_COVERAGE'' ''c'' ''Coverage'']
   \<and> (\<exists>b1. bindings_after two_coverage_graph []
          [step_out ''p'' ''Policy'' ''HAS_COVERAGE'' ''c'' ''Coverage'']
          (initial_paths ''p'' [(''pol1'', policy_node)]) (Suc 0) = Inr b1
        \<and> length b1 = 2
        \<and> length b1 \<le> length (initial_paths ''p'' [(''pol1'', policy_node)]) * 2)"
proof -
  let ?steps = "[step_out ''p'' ''Policy'' ''HAS_COVERAGE'' ''c'' ''Coverage'']"
  let ?cur = "initial_paths ''p'' [(''pol1'', policy_node)]"
  obtain b1 where b1: "bindings_after two_coverage_graph [] ?steps ?cur (Suc 0) = Inr b1"
    and l: "length b1 = 2"
    using two_coverage_steps(2)
    by (cases "bindings_after two_coverage_graph [] ?steps ?cur (Suc 0)") auto
  have "length b1 \<le> length ?cur * edge_bound two_coverage_graph (?steps ! 0)"
    using binding_count_bound [of 0 ?steps two_coverage_graph "[]" ?cur ?cur b1]
      two_coverage_steps(1) b1 by simp
  then show ?thesis using b1 l by (simp add: two_coverage_steps(3))
qed

section \<open>The coverage scenario\<close>

lemma coverage_query_fields:
  "is_procedural coverage_query = False"
  "start_nodes coverage_query = [\<lparr>ss_label = ''Policy'', ss_alias = ''p''\<rparr>]"
  "paths coverage_query = [step_out ''p'' ''Policy'' ''HAS_COVERAGE'' ''c'' ''Coverage'']"
  "return_properties coverage_query =
     [\<lparr>rs_node = ''p'', rs_property = ''policy_number''\<rparr>,
      \<lparr>rs_node = ''c'', rs_property = ''type''\<rparr>,
      \<lparr>rs_node = ''c'', rs_property = ''limit''\<rparr>,
      \<lparr>rs_node = ''c'', rs_property = ''deductible''\<rparr>]"
  "filters coverage_query = [simple_filter ''p'' ''policy_number'' (PStr ''P1001'')]"
  by (simp_all add: coverage_query_def build_graph_query_def no_params_def filter_if_def
      empty_query_def)

lemma start_filter_ok_eq: "start_filter_ok ''='' pv fv = Inr (start_eq pv fv)"
  by (simp add: start_filter_ok_def start_eq_def split: pyval.splits)

lemma start_stage_policy:
  "filters_match start_filter_ok [simple_filter ''p'' ''policy_number'' (PStr ''P1001'')] ''p'' node
     = Inr (policy_matches node)"
  by (simp add: filters_match_single start_filter_ok_eq policy_matches_def
      del: filters_match.simps split: option.splits)

lemma path_stage_coverage:
  "filters_match path_filter_ok [simple_filter ''p'' ''policy_number'' (PStr ''P1001'')] ''c'' node
     = Inr True"
  by (simp add: simple_filter_def)

lemma filter_nodes_pure:
  assumes "\<And>node. filters_match ok fs a node = Inr (P node)"
  shows "filter_nodes ok fs a ns = Inr (filter (\<lambda>(node_id, node). P node) ns)"
  by (induction ns) (auto simp: assms)

lemma lookup_nodes_closed:
  "\<forall>i \<in> set ids. map_of (kg_nodes g) i \<noteq> None \<Longrightarrow>
   lookup_nodes g ids = Inr (map (\<lambda>i. (i, the (map_of (kg_nodes g) i))) ids)"
  by (induction ids) auto

lemma neighbour_ids_closed:
  "edges_closed g \<Longrightarrow> \<forall>i \<in> set (neighbour_ids g d rel n). map_of (kg_nodes g) i \<noteq> None"
  by (auto simp: edges_closed_def neighbour_ids_def list_all_iff Let_def)

lemma extend_policy_binding:
  assumes "edges_closed g"
  shows "extend_path g [simple_filter ''p'' ''policy_number'' (PStr ''P1001'')]
           (step_out ''p'' ''Policy'' ''HAS_COVERAGE'' ''c'' ''Coverage'')
           [(''p'', BNode i d), (''path'', BPath [(''p'', i)])]
         = Inr (coverage_bindings g (i, d))"
proof -
  let ?ids = "neighbour_ids g ''outgoing'' ''HAS_COVERAGE'' i"
  have l: "lookup_nodes g ?ids = Inr (map (\<lambda>j. (j, the (map_of (kg_nodes g) j))) ?ids)"
    by (rule lookup_nodes_closed) (rule neighbour_ids_closed [OF assms])
  have f: "filter_nodes path_filter_ok [simple_filter ''p'' ''policy_number'' (PStr ''P1001'')]
      ''c'' ns = Inr ns" for ns
    using filter_nodes_pure [of path_filter_ok _ "''c''" "\<lambda>_. True" ns, OF path_stage_coverage]
    by simp
  show ?thesis
    by (simp add: extend_path_def step_out_def l f coverage_bindings_def)
qed

lemma path_step_pure:
  "\<forall>b \<in> set cur. extend_path g fs st b = Inr (E b) \<Longrightarrow>
   path_step g fs st cur = Inr (concat (map E cur))"
  by (induction cur) auto

lemma initial_paths_p:
  "initial_paths ''p'' ns =
     map (\<lambda>(i, d). [(''p'', BNode i d), (''path'', BPath [(''p'', i)])]) ns"
  by (simp add: initial_paths_def)

lemma coverage_run:
  assumes "edges_closed g"
  shows "run_paths g (filters coverage_query) (paths coverage_query) (initial_paths ''p'' ns)
         = Inr (concat (map (coverage_bindings g) ns))"
proof -
  let ?E = "\<lambda>b. case b of (k, BNode i d) # _ \<Rightarrow> coverage_bindings g (i, d) | _ \<Rightarrow> []"
  have "path_step g [simple_filter ''p'' ''policy_number'' (PStr ''P1001'')]
      (step_out ''p'' ''Policy'' ''HAS_COVERAGE'' ''c'' ''Coverage'') (initial_paths ''p'' ns)
      = Inr (concat (map ?E (initial_paths ''p'' ns)))"
    by (rule path_step_pure) (auto simp: initial_paths_p extend_policy_binding [OF assms])
  moreover have "concat (map ?E (initial_paths ''p'' ns)) = concat (map (coverage_bindings g) ns)"
    by (induction ns) (auto simp: initial_paths_p)
  ultimately show ?thesis by (simp add: coverage_query_fields)
qed

text \<open>Dictionaries: what \<open>dict_set\<close> and the two aggregations keep.\<close>

lemma map_of_dict_set: "map_of (dict_set d k v) k' = (if k' = k then Some v else map_of d k')"
  by (induction d) auto

lemma py_eq_PStr: "py_eq (PStr s) w \<longleftrightarrow> w = PStr s"
  by (cases w) auto

lemma has_str_add: "has_str (add_property_value d k (PStr s)) k s"
  by (auto simp: has_str_def add_property_value_def map_of_dict_set list_ex_iff py_eq_PStr
      split: option.splits)

lemma has_str_keep: "has_str d k s \<Longrightarrow> has_str (add_property_value d k' v) k s"
  by (auto simp: has_str_def add_property_value_def map_of_dict_set Let_def)

lemma has_str_foldl_keep:
  "has_str d k s \<Longrightarrow>
   has_str (foldl (\<lambda>d (k, v). add_property_value d k v) d kvs) k s"
  by (induction kvs arbitrary: d) (auto simp: has_str_keep)

lemma has_str_foldl_add:
  "(k, PStr s) \<in> set kvs \<Longrightarrow>
   has_str (foldl (\<lambda>d (k, v). add_property_value d k v) d kvs) k s"
proof (induction kvs arbitrary: d)
  case Nil
  then show ?case by simp
next
  case (Cons kv kvs)
  show ?case
  proof (cases "kv = (k, PStr s)")
    case True
    then show ?thesis by (simp add: has_str_foldl_keep has_str_add)
  next
    case False
    with Cons.prems have "(k, PStr s) \<in> set kvs" by simp
    from Cons.IH [OF this] show ?thesis by (cases kv) simp
  qed
qed

lemma has_str_combine_keep:
  "has_str d k s \<Longrightarrow>
   has_str (foldl (\<lambda>d path. foldl (\<lambda>d (k, v). add_property_value d k v) d (rp_properties path))
     d rps) k s"
  by (induction rps arbitrary: d) (auto simp: has_str_foldl_keep)

lemma has_str_combine:
  assumes "path \<in> set rps" and "(k, PStr s) \<in> set (rp_properties path)"
  shows "has_str (combine_properties rps) k s"
proof -
  have "has_str (foldl (\<lambda>d path. foldl (\<lambda>d (k, v). add_property_value d k v) d
      (rp_properties path)) d rps) k s" for d
    using assms(1)
  proof (induction rps arbitrary: d)
    case Nil
    then show ?case by simp
  next
    case (Cons r rps)
    show ?case
    proof (cases "r = path")
      case True
      then show ?thesis
        by (simp add: has_str_combine_keep has_str_foldl_add [OF assms(2)])
    next
      case False
      with Cons.prems have "path \<in> set rps" by simp
      from Cons.IH [OF this] show ?thesis by simp
    qed
  qed
  then show ?thesis by (simp add: combine_properties_def)
qed

text \<open>The projection of the binding of the policy and its liability coverage.\<close>

lemma project_coverage_binding:
  assumes "map_of (properties cd) ''type'' = Some (PStr ''liability'')"
  shows "(''c.type'', PStr ''liability'') \<in> set (rp_properties
      (project_path (return_properties coverage_query)
         [(''p'', BNode pid pd), (''path'', BPath tr), (''c'', BNode cid cd)]))"
proof -
  have "map_of (rp_properties (project_path (return_properties coverage_query)
      [(''p'', BNode pid pd), (''path'', BPath tr), (''c'', BNode cid cd)])) ''c.type''
      = Some (PStr ''liability'')"
    using assms
    by (simp add: project_path_def coverage_query_fields returned_of_def map_of_dict_set
        split: option.splits)
  then show ?thesis by (rule map_of_SomeD)
qed

text \<open>The result of a query with one start specification and at least one path step.\<close>

lemma execute_body_paths:
  assumes "\<not> is_procedural q" and "start_nodes q = [sp]"
    and "nodes_with_label g (ss_label sp) \<noteq> []"
    and "filter_start_nodes (filters q) [(ss_alias sp, nodes_with_label g (ss_label sp))]
           = Inr [(a, kept)]"
    and "paths q \<noteq> []"
    and "run_paths g (filters q) (paths q) (initial_paths a kept) = Inr cur"
    and "cur \<noteq> []"
  shows "execute_body g q =
      Inr (Results \<lparr>r_properties = combine_properties
                        (map (project_path (return_properties q)) cur),
                    r_count = length cur,
                    r_paths = Some (map (project_path (return_properties q)) cur),
                    r_error = None\<rparr>)"
proof -
  obtain n ns where N: "nodes_with_label g (ss_label sp) = n # ns"
    using assms(3) by (cases "nodes_with_label g (ss_label sp)") auto
  obtain c cs where C: "cur = c # cs"
    using assms(7) by (cases cur) auto
  show ?thesis
    unfolding execute_body_def
    using assms(1,2,5) assms(4) [unfolded N] assms(6) [unfolded C]
    by (simp add: N C Let_def del: run_paths.simps filter_start_nodes.simps)
qed

lemma coverage_execute:
  assumes closed: "edges_closed g"
    and pol: "(pid, pd) \<in> set (kg_nodes g)" "''Policy'' \<in> set (labels pd)"
      "map_of (properties pd) ''policy_number'' = Some (PStr ''P1001'')"
    and cov: "map_of (kg_nodes g) cid = Some cd" "''Coverage'' \<in> set (labels cd)"
      "map_of (properties cd) ''type'' = Some (PStr ''liability'')"
    and edge: "(pid, cid, ''HAS_COVERAGE'') \<in> set (kg_edges g)"
  shows "\<exists>r. execute_graph_query g coverage_query = Results r \<and> r_error r = None
           \<and> 1 \<le> r_count r \<and> has_str (r_properties r) ''c.type'' ''liability''"
proof -
  let ?N = "nodes_with_label g ''Policy''"
  let ?F = "filter (\<lambda>(node_id, node). policy_matches node) ?N"
  let ?cur = "concat (map (coverage_bindings g) ?F)"
  let ?b = "[(''p'', BNode pid pd), (''path'', BPath [(''p'', pid), (''c'', cid)]),
             (''c'', BNode cid cd)]"
  have inN: "(pid, pd) \<in> set ?N"
    using pol by (simp add: nodes_with_label_def)
  then obtain n ns where N: "?N = n # ns"
    by (cases ?N) auto
  have "policy_matches pd"
    using pol(3) by (simp add: policy_matches_def start_eq_def)
  with inN have inF: "(pid, pd) \<in> set ?F" by simp
  have "cid \<in> set (neighbour_ids g ''outgoing'' ''HAS_COVERAGE'' pid)"
    using edge by (force simp: neighbour_ids_def)
  then have "?b \<in> set (coverage_bindings g (pid, pd))"
    using cov(1,2) by (auto simp: coverage_bindings_def image_iff)
  with inF have inC: "?b \<in> set ?cur" by auto
  then obtain c cs where C: "?cur = c # cs"
    by (cases ?cur) auto
  have start: "filter_start_nodes (filters coverage_query) [(''p'', ?N)] = Inr [(''p'', ?F)]"
    using filter_nodes_pure [of start_filter_ok _ "''p''" policy_matches ?N,
        OF start_stage_policy]
    by (simp add: coverage_query_fields)
  have ne: "paths coverage_query \<noteq> []"
    by (simp add: coverage_query_fields)
  have body: "execute_body g coverage_query =
      Inr (Results \<lparr>r_properties = combine_properties
                        (map (project_path (return_properties coverage_query)) ?cur),
                    r_count = length ?cur,
                    r_paths = Some (map (project_path (return_properties coverage_query)) ?cur),
                    r_error = None\<rparr>)"
  proof (rule execute_body_paths [where sp = "\<lparr>ss_label = ''Policy'', ss_alias = ''p''\<rparr>"
        and a = "''p''" and kept = ?F])
    show "\<not> is_procedural coverage_query" by (simp add: coverage_query_fields)
    show "start_nodes coverage_query = [\<lparr>ss_label = ''Policy'', ss_alias = ''p''\<rparr>]"
      by (simp add: coverage_query_fields)
    show "nodes_with_label g (ss_label \<lparr>ss_label = ''Policy'', ss_alias = ''p''\<rparr>) \<noteq> []"
      by (simp add: N)
    show "filter_start_nodes (filters coverage_query)
        [(ss_alias \<lparr>ss_label = ''Policy'', ss_alias = ''p''\<rparr>,
          nodes_with_label g (ss_label \<lparr>ss_label = ''Policy'', ss_alias = ''p''\<rparr>))]
        = Inr [(''p'', ?F)]"
      using start by simp
    show "paths coverage_query \<noteq> []" by (rule ne)
    show "run_paths g (filters coverage_query) (paths coverage_query) (initial_paths ''p'' ?F)
        = Inr ?cur"
      by (rule coverage_run [OF closed])
    show "?cur \<noteq> []" by (simp add: C)
  qed
  have "has_str (combine_properties (map (project_path (return_properties coverage_query)) ?cur))
      ''c.type'' ''liability''"
  proof (rule has_str_combine)
    show "project_path (return_properties coverage_query) ?b
        \<in> set (map (project_path (return_properties coverage_query)) ?cur)"
      using inC by (simp del: set_concat)
    show "(''c.type'', PStr ''liability'')
        \<in> set (rp_properties (project_path (return_properties coverage_query) ?b))"
      by (rule project_coverage_binding [OF cov(3)])
  qed
  moreover have "1 \<le> length ?cur" by (simp add: C)
  ultimately show ?thesis
    by (simp add: execute_graph_query_def body)
qed

lemma test_graph_scenario:
  "execute_graph_query test_graph coverage_query =
     Results \<lparr>r_properties = [(''p.policy_number'', [PStr ''P1001'']),
                               (''c.type'', [PStr ''liability'']),
                               (''c.limit'', [PInt 500000]),
                               (''c.deductible'', [PInt 1000])],
              r_count = 1,
              r_paths = Some [\<lparr>rp_nodes = [(''p'', ''pol1''), (''c'', ''cov1'')],
                               rp_properties = [(''p.policy_number'', PStr ''P1001''),
                                                (''c.type'', PStr ''liability''),
                                                (''c.limit'', PInt 500000),
                                                (''c.deductible'', PInt 1000)]\<rparr>],
              r_error = None\<rparr>"
  by code_simp

text \<open>
  Claim C6 as stated fails: \<open>two_coverage_graph\<close> contains the policy \<open>P1001\<close>, its
  coverage of type \<open>liability\<close> with limit 500000 and the edge between them, and the value
  of \<open>c.type\<close> in the result is the two-element list of both coverage types.
\<close>

theorem coverage_scenario_counterexample:
  "(''pol1'', policy_node) \<in> set (kg_nodes two_coverage_graph)
   \<and> map_of (properties policy_node) ''policy_number'' = Some (PStr ''P1001'')
   \<and> map_of (kg_nodes two_coverage_graph) ''cov1'' = Some coverage_node
   \<and> map_of (properties coverage_node) ''type'' = Some (PStr ''liability'')
   \<and> map_of (properties coverage_node) ''limit'' = Some (PInt 500000)
   \<and> (''pol1'', ''cov1'', ''HAS_COVERAGE'') \<in> set (kg_edges two_coverage_graph)
   \<and> (case execute_graph_query two_coverage_graph coverage_query of
        Results r \<Rightarrow> r_count r = 2
          \<and> map_of (r_properties r) ''c.type'' = Some [PStr ''liability'', PStr ''collision'']
      | Procedural d \<Rightarrow> False)
   \<and> [PStr ''liability'', PStr ''collision''] \<noteq> [PStr ''liability'']"
  by code_simp

text \<open>
  Claim C6, amended. If the knowledge graph contains a node labelled \<open>Policy\<close> with
  \<open>policy_number\<close> \<open>P1001\<close>, joined by an outgoing \<open>HAS_COVERAGE\<close> edge to a node labelled
  \<open>Coverage\<close> with type \<open>liability\<close> and limit 500000, then the query built for
  \<open>coverage_inquiry\<close> with that policy number returns, without error, a count of at least 1
  and a list \<open>properties["c.type"]\<close> that contains \<open>liability\<close>. On the graph of the
  repository's test, which holds this one coverage only, the count is 1 and the list is
  \<open>["liability"]\<close>.
\<close>

theorem coverage_scenario:
  "(edges_closed g
      \<and> (pid, pd) \<in> set (kg_nodes g) \<and> ''Policy'' \<in> set (labels pd)
      \<and> map_of (properties pd) ''policy_number'' = Some (PStr ''P1001'')
      \<and> map_of (kg_nodes g) cid = Some cd \<and> ''Coverage'' \<in> set (labels cd)
      \<and> map_of (properties cd) ''type'' = Some (PStr ''liability'')
      \<and> map_of (properties cd) ''limit'' = Some (PInt 500000)
      \<and> (pid, cid, ''HAS_COVERAGE'') \<in> set (kg_edges g)
    \<longrightarrow> (\<exists>r. execute_graph_query g coverage_query = Results r \<and> r_error r = None
           \<and> 1 \<le> r_count r
           \<and> (\<exists>vs. map_of (r_properties r) ''c.type'' = Some vs \<and> PStr ''liability'' \<in> set vs)))
   \<and> (\<exists>r. execute_graph_query test_graph coverage_query = Results r
         \<and> r_count r = 1 \<and> map_of (r_properties r) ''c.type'' = Some [PStr ''liability''])"
proof (intro conjI impI)
  assume h: "edges_closed g
      \<and> (pid, pd) \<in> set (kg_nodes g) \<and> ''Policy'' \<in> set (labels pd)
      \<and> map_of (properties pd) ''policy_number'' = Some (PStr ''P1001'')
      \<and> map_of (kg_nodes g) cid = Some cd \<and> ''Coverage'' \<in> set (labels cd)
      \<and> map_of (properties cd) ''type'' = Some (PStr ''liability'')
      \<and> map_of (properties cd) ''limit'' = Some (PInt 500000)
      \<and> (pid, cid, ''HAS_COVERAGE'') \<in> set (kg_edges g)"
  then show "\<exists>r. execute_graph_query g coverage_query = Results r \<and> r_error r = None
           \<and> 1 \<le> r_count r
           \<and> (\<exists>vs. map_of (r_properties r) ''c.type'' = Some vs \<and> PStr ''liability'' \<in> set vs)"
    using coverage_execute [of g pid pd cid cd] by (simp add: has_str_def)
next
  show "\<exists>r. execute_graph_query test_graph coverage_query = Results r
         \<and> r_count r = 1 \<and> map_of (r_properties r) ''c.type'' = Some [PStr ''liability'']"
    by (simp add: test_graph_scenario)
qed

lemma two_coverage_graph_facts:
  "edges_closed two_coverage_graph"
  "(''pol1'', policy_node) \<in> set (kg_nodes two_coverage_graph)"
  "''Policy'' \<in> set (labels policy_node)"
  "map_of (properties policy_node) ''policy_number'' = Some (PStr ''P1001'')"
  "map_of (kg_nodes two_coverage_graph) ''cov1'' = Some coverage_node"
  "''Coverage'' \<in> set (labels coverage_node)"
  "map_of (properties coverage_node) ''type'' = Some (PStr ''liability'')"
  "map_of (properties coverage_node) ''limit'' = Some (PInt 500000)"
  "(''pol1'', ''cov1'', ''HAS_COVERAGE'') \<in> set (kg_edges two_coverage_graph)"
  by code_simp+

theorem coverage_scenario_witness:
  "edges_closed two_coverage_graph
   \<and> (''pol1'', policy_node) \<in> set (kg_nodes two_coverage_graph)
   \<and> (''pol1'', ''cov1'', ''HAS_COVERAGE'') \<in> set (kg_edges two_coverage_graph)
   \<and> (\<exists>r. execute_graph_query two_coverage_graph coverage_query = Results r \<and> r_error r = None
         \<and> 1 \<le> r_count r
         \<and> (\<exists>vs. map_of (r_properties r) ''c.type'' = Some vs \<and> PStr ''liability'' \<in> set vs))"
  using coverage_scenario [of two_coverage_graph "''pol1''" policy_node "''cov1''" coverage_node]
    two_coverage_graph_facts
  by blast

end
